theory Spec2Isabelle
  imports Complex_Main "HOL-Library.AList" "HOL-Library.List_Lexorder" "HOL-Library.Char_ord"
begin

section \<open>The self-test module of ceph-mgr (mgr/selftest/module.py)\<close>

text \<open>
  The module has two entry points that run on different threads: \<open>handle_command\<close>
  (and \<open>shutdown\<close>), called by the host for each administrative command, and
  \<open>serve\<close>, the long-lived loop of the module's own thread. They share two
  attributes, \<open>self._workload\<close> and \<open>self._event\<close>.

  The command handlers are embedded as state-passing functions that return either the
  exception they raise or their result. The \<open>serve\<close> thread is embedded as a
  step function on a program counter, one step per atomic access to the shared
  attributes, so that the other thread's writes can be interleaved at every point.
\<close>

subsection \<open>Python values and exceptions\<close>

text \<open>The exceptions the module raises, catches or lets through.\<close>

datatype pyexn =
    KeyError string
  | IndexError
  | AssertionError
  | ImportError
  | NameError
  | RuntimeError string
  | HostError string

text \<open>A JSON command: the dictionary \<open>command\<close> of \<open>handle_command\<close>.\<close>

type_synonym command = "string \<rightharpoonup> string"

text \<open>The triple \<open>(status, output buffer, message)\<close> that \<open>handle_command\<close> returns.\<close>

type_synonym result = "int \<times> string \<times> string"

datatype json = JInt int | JStr string | JObj "(string \<times> json) list"

text \<open>An argument of a cross-module call.\<close>

datatype pyarg = ArgStr string | ArgDict "(string \<times> string) list"

text \<open>
  \<open>str(x)\<close> and the truth value of \<open>x\<close>, for \<open>x\<close> a string or \<open>None\<close>
  (\<open>None\<close> is the HOL \<open>None\<close>, a string \<open>s\<close> is \<open>Some s\<close>).
\<close>

fun py_str :: "string option \<Rightarrow> string" where
  "py_str None = ''None''"
| "py_str (Some s) = s"

fun truthy :: "string option \<Rightarrow> bool" where
  "truthy None = False"
| "truthy (Some s) = (s \<noteq> [])"

definition EINVAL :: int where
  "EINVAL = 22"

subsection \<open>The module's attributes\<close>

text \<open>
  Atomic actions on the shared attributes and on the command channel, recorded in the
  order in which they are executed (a history variable: no source statement reads it).
\<close>

datatype action =
    WriteWorkload "string option"
  | EventSet
  | EventClear
  | EventWait
  | SendCommand string string int real
  | AwaitResult

text \<open>
  \<open>workload\<close> is \<open>self._workload\<close>, \<open>event\<close> the flag of the
  \<open>threading.Event\<close> \<open>self._event\<close>, \<open>logged\<close> the messages given to
  \<open>self.log.info\<close>.
\<close>

record module =
  workload :: "string option"
  event :: bool
  trace :: "action list"
  logged :: "string list"

definition WORKLOAD_COMMAND_SPAM :: string where
  "WORKLOAD_COMMAND_SPAM = ''command_spam''"

definition WORKLOAD_THROW_EXCEPTION :: string where
  "WORKLOAD_THROW_EXCEPTION = ''throw_exception''"

definition SHUTDOWN :: string where
  "SHUTDOWN = ''shutdown''"

definition WORKLOADS :: "string list" where
  "WORKLOADS = [WORKLOAD_COMMAND_SPAM, WORKLOAD_THROW_EXCEPTION]"

text \<open>\<open>__init__\<close>: a fresh event is not set, and no workload is requested.\<close>

definition init :: module where
  "init = \<lparr>workload = None, event = False, trace = [], logged = []\<rparr>"

definition set_workload :: "string option \<Rightarrow> module \<Rightarrow> module" where
  "set_workload v self = self\<lparr>workload := v, trace := trace self @ [WriteWorkload v]\<rparr>"

definition event_set :: "module \<Rightarrow> module" where
  "event_set self = self\<lparr>event := True, trace := trace self @ [EventSet]\<rparr>"

definition event_clear :: "module \<Rightarrow> module" where
  "event_clear self = self\<lparr>event := False, trace := trace self @ [EventClear]\<rparr>"

definition log_info :: "string \<Rightarrow> module \<Rightarrow> module" where
  "log_info msg self = self\<lparr>logged := logged self @ [msg]\<rparr>"

subsection \<open>The host interface\<close>

text \<open>
  The methods of \<open>MgrModule\<close> that the module calls are the host's, and are taken
  as parameters over a host state \<open>'h\<close> of any type. A call whose result the module
  inspects is given by its result (\<open>None\<close> is Python's \<open>None\<close>). The stretches of
  the self-test that only call the host and drop the results are given by one parameter
  each, which says whether the stretch raises: \<open>osdmap_calls\<close> for lines 192-207,
  \<open>getters_calls\<close> for lines 119-156, \<open>misc_calls\<close> for lines 188-189 and
  \<open>perf_counter_calls\<close> for lines 182-183. \<open>mgr_map_available\<close> is the list of
  the \<open>name\<close> entries of \<open>get("mgr_map")['available_modules']\<close>, and
  \<open>mgr_map_modules\<close> is \<open>get("mgr_map")['modules']\<close>. \<open>list_of_set\<close> is the
  order in which Python lists the elements of a set, given without duplicates.
\<close>

record 'h host_api =
  get_config :: "string \<Rightarrow> 'h \<Rightarrow> string option"
  set_config :: "string \<Rightarrow> string \<Rightarrow> 'h \<Rightarrow> 'h"
  get_localized_config :: "string \<Rightarrow> 'h \<Rightarrow> string option"
  set_localized_config :: "string \<Rightarrow> string \<Rightarrow> 'h \<Rightarrow> 'h"
  get_store_prefix :: "string \<Rightarrow> 'h \<Rightarrow> (string \<times> string) list"
  set_store :: "string \<Rightarrow> string \<Rightarrow> 'h \<Rightarrow> 'h"
  get_store :: "string \<Rightarrow> 'h \<Rightarrow> string option"
  set_store_json :: "string \<Rightarrow> json \<Rightarrow> 'h \<Rightarrow> 'h"
  get_store_json :: "string \<Rightarrow> 'h \<Rightarrow> json option"
  osdmap_calls :: "'h \<Rightarrow> (pyexn + unit) \<times> 'h"
  getters_calls :: "'h \<Rightarrow> (pyexn + unit) \<times> 'h"
  misc_calls :: "'h \<Rightarrow> (pyexn + unit) \<times> 'h"
  perf_counter_calls :: "'h \<Rightarrow> (pyexn + unit) \<times> 'h"
  remote :: "string \<Rightarrow> string \<Rightarrow> pyarg list \<Rightarrow> 'h \<Rightarrow> (pyexn + unit) \<times> 'h"
  mgr_map_available :: "'h \<Rightarrow> string list"
  mgr_map_modules :: "'h \<Rightarrow> string list"
  list_of_set :: "string list \<Rightarrow> string list"

subsection \<open>Statements that may raise\<close>

text \<open>
  A statement of a command handler takes the module's attributes and the host state and
  returns them updated, with \<open>Inl e\<close> when it raised \<open>e\<close>.
\<close>

type_synonym 'h stmt = "module \<times> 'h \<Rightarrow> (pyexn + unit) \<times> module \<times> 'h"

definition on_host :: "('h \<Rightarrow> 'h) \<Rightarrow> 'h stmt" where
  "on_host f = (\<lambda>(self, h). (Inr (), self, f h))"

definition on_self :: "(module \<Rightarrow> module) \<Rightarrow> 'h stmt" where
  "on_self f = (\<lambda>(self, h). (Inr (), f self, h))"

definition host_call :: "('h \<Rightarrow> (pyexn + unit) \<times> 'h) \<Rightarrow> 'h stmt" where
  "host_call f = (\<lambda>(self, h). case f h of (r, h') \<Rightarrow> (r, self, h'))"

text \<open>\<open>assert b\<close>, for a condition on the host state.\<close>

definition py_assert :: "('h \<Rightarrow> bool) \<Rightarrow> 'h stmt" where
  "py_assert b = (\<lambda>(self, h). if b h then (Inr (), self, h) else (Inl AssertionError, self, h))"

text \<open>Statements in sequence: the first exception ends the sequence.\<close>

fun block :: "'h stmt list \<Rightarrow> 'h stmt" where
  "block [] s = (Inr (), s)"
| "block (c # cs) s = (case c s of (Inl e, s') \<Rightarrow> (Inl e, s') | (Inr u, s') \<Rightarrow> block cs s')"

text \<open>
  \<open>try: c  except kind: pass  else: raise RuntimeError(msg)\<close>. An exception of another
  kind is not caught.
\<close>

definition expect_raise :: "pyexn \<Rightarrow> string \<Rightarrow> 'h stmt \<Rightarrow> 'h stmt" where
  "expect_raise kind msg c = (\<lambda>s. case c s of
      (Inl e, s') \<Rightarrow> if e = kind then (Inr (), s') else (Inl e, s')
    | (Inr u, s') \<Rightarrow> (Inl (RuntimeError msg), s'))"

subsection \<open>The self-test procedures\<close>

definition self_test_osdmap :: "'h host_api \<Rightarrow> 'h stmt" where
  "self_test_osdmap api = block [
     host_call (osdmap_calls api),
     on_self (log_info ''Finished self-test procedure.'')]"

definition self_test_getters :: "'h host_api \<Rightarrow> 'h stmt" where
  "self_test_getters api = host_call (getters_calls api)"

definition self_test_config :: "'h host_api \<Rightarrow> 'h stmt" where
  "self_test_config api = block [
     on_host (set_config api ''testkey'' ''testvalue''),
     py_assert (\<lambda>h. get_config api ''testkey'' h = Some ''testvalue''),
     on_host (set_localized_config api ''testkey'' ''testvalue''),
     py_assert (\<lambda>h. get_localized_config api ''testkey'' h = Some ''testvalue'')]"

text \<open>
  \<open>existing_keys\<close> is read before the two writes; the last assertion compares two
  sorted lists of keys, the right one built from a set and so without duplicates.
\<close>

definition self_test_store :: "'h host_api \<Rightarrow> 'h stmt" where
  "self_test_store api = (\<lambda>(self, h).
     let existing_keys = remdups (map fst (get_store_prefix api ''test'' h)) in
     block [
       on_host (set_store api ''testkey'' ''testvalue''),
       py_assert (\<lambda>h. get_store api ''testkey'' h = Some ''testvalue''),
       on_host (set_store_json api ''testjsonkey'' (JObj [(''testblob'', JInt 2)])),
       py_assert (\<lambda>h. get_store_json api ''testjsonkey'' h = Some (JObj [(''testblob'', JInt 2)])),
       py_assert (\<lambda>h. sort (map fst (get_store_prefix api ''test'' h)) =
                       sort (remdups ([''testkey'', ''testjsonkey''] @ existing_keys)))]
     (self, h))"

definition self_test_perf_counters :: "'h host_api \<Rightarrow> 'h stmt" where
  "self_test_perf_counters api = host_call (perf_counter_calls api)"

definition self_test_misc :: "'h host_api \<Rightarrow> 'h stmt" where
  "self_test_misc api = host_call (misc_calls api)"

definition self_test :: "'h host_api \<Rightarrow> 'h stmt" where
  "self_test api = block [
     on_self (log_info ''Running self-test procedure...''),
     self_test_osdmap api,
     self_test_getters api,
     self_test_config api,
     self_test_store api,
     self_test_misc api,
     self_test_perf_counters api]"

subsection \<open>The cross-module call test\<close>

definition influx_self_test :: "(string \<times> string) list" where
  "influx_self_test = [(''prefix'', ''influx self-test'')]"

text \<open>
  The module picked as disabled is the first of \<open>list(disabled_modules)\<close>;
  an empty list raises \<open>IndexError\<close>.
\<close>

definition test_remote_calls :: "'h host_api \<Rightarrow> 'h stmt" where
  "test_remote_calls api = block [
     host_call (remote api ''influx'' ''handle_command'' [ArgStr [], ArgDict influx_self_test]),
     (\<lambda>(self, h).
        let all_modules = mgr_map_available api h;
            disabled_modules = filter (\<lambda>m. m \<notin> set (mgr_map_modules api h)) (remdups all_modules)
        in case list_of_set api disabled_modules of
             [] \<Rightarrow> (Inl IndexError, self, h)
           | disabled_module # rest \<Rightarrow>
               expect_raise ImportError ''ImportError not raised for disabled module''
                 (host_call (remote api disabled_module ''handle_command'' [ArgDict influx_self_test]))
                 (self, h)),
     expect_raise ImportError ''ImportError not raised for nonexistent module''
       (host_call (remote api ''idontexist'' ''handle_command'' [ArgDict influx_self_test])),
     expect_raise NameError ''KeyError not raised''
       (host_call (remote api ''influx'' ''idontexist'' [ArgDict influx_self_test]))]"

subsection \<open>The command handler\<close>

definition handle_command ::
  "'h host_api \<Rightarrow> command \<Rightarrow> module \<times> 'h \<Rightarrow> (pyexn + result) \<times> module \<times> 'h" where
  "handle_command api command = (\<lambda>(self, h).
     case command ''prefix'' of
       None \<Rightarrow> (Inl (KeyError ''prefix''), self, h)
     | Some prefix \<Rightarrow>
       if prefix = ''mgr self-test run'' then
         (case self_test api (self, h) of
            (Inl e, s) \<Rightarrow> (Inl e, s)
          | (Inr u, s) \<Rightarrow> (Inr (0, [], ''Self-test succeeded''), s))
       else if prefix = ''mgr self-test background start'' then
         (case command ''workload'' of
            None \<Rightarrow> (Inl (KeyError ''workload''), self, h)
          | Some w \<Rightarrow>
              if w \<notin> set WORKLOADS then
                (Inr (- EINVAL, [], ''Workload not found '' @ [CHR 0x27] @ w @ [CHR 0x27]),
                 self, h)
              else
                (let self = set_workload (Some w) self;
                     self = event_set self
                 in (Inr (0, [], ''Running `'' @ py_str (workload self) @ ''` in background''),
                     self, h)))
       else if prefix = ''mgr self-test background stop'' then
         (if truthy (workload self) then
            (let was_running = workload self;
                 self = set_workload None self;
                 self = event_set self
             in (Inr (0, [], ''Stopping background workload `'' @ py_str was_running @ ''`''),
                 self, h))
          else (Inr (0, [], ''No background workload was running''), self, h))
       else if prefix = ''mgr self-test config get'' then
         (case command ''key'' of
            None \<Rightarrow> (Inl (KeyError ''key''), self, h)
          | Some key \<Rightarrow> (Inr (0, py_str (get_config api key h), []), self, h))
       else if prefix = ''mgr self-test config get_localized'' then
         (case command ''key'' of
            None \<Rightarrow> (Inl (KeyError ''key''), self, h)
          | Some key \<Rightarrow> (Inr (0, py_str (get_localized_config api key h), []), self, h))
       else if prefix = ''mgr self-test remote'' then
         (case test_remote_calls api (self, h) of
            (Inl e, s) \<Rightarrow> (Inl e, s)
          | (Inr u, s) \<Rightarrow> (Inr (0, [], ''Successfully called''), s))
       else
         (Inr (- EINVAL, [], ''Command not found '' @ [CHR 0x27] @ prefix @ [CHR 0x27]),
          self, h))"

definition shutdown :: "module \<Rightarrow> module" where
  "shutdown self = event_set (set_workload (Some SHUTDOWN) self)"

subsection \<open>A host to evaluate the definitions on\<close>

text \<open>
  A host that keeps what it is given: configuration values, localized configuration
  values and a key-value store, as association lists. The module \<open>influx\<close> is
  enabled, \<open>dashboard\<close> is available and disabled. A call to a module that is not
  enabled raises \<open>ImportError\<close>, a call to a method other than \<open>handle_command\<close>
  raises \<open>NameError\<close>.
\<close>

record host =
  config :: "(string \<times> string) list"
  localized_config :: "(string \<times> string) list"
  store :: "(string \<times> json) list"

definition empty_host :: host where
  "empty_host = \<lparr>config = [], localized_config = [], store = []\<rparr>"

definition test_host :: "host host_api" where
  "test_host = \<lparr>
     get_config = (\<lambda>k h. map_of (config h) k),
     set_config = (\<lambda>k v h. h\<lparr>config := AList.update k v (config h)\<rparr>),
     get_localized_config = (\<lambda>k h. map_of (localized_config h) k),
     set_localized_config = (\<lambda>k v h. h\<lparr>localized_config := AList.update k v (localized_config h)\<rparr>),
     get_store_prefix = (\<lambda>p h. map (\<lambda>(k, j). (k, case j of JStr v \<Rightarrow> v | _ \<Rightarrow> ''json''))
        (filter (\<lambda>(k, j). take (length p) k = p) (store h))),
     set_store = (\<lambda>k v h. h\<lparr>store := AList.update k (JStr v) (store h)\<rparr>),
     get_store = (\<lambda>k h. case map_of (store h) k of Some (JStr v) \<Rightarrow> Some v | _ \<Rightarrow> None),
     set_store_json = (\<lambda>k j h. h\<lparr>store := AList.update k j (store h)\<rparr>),
     get_store_json = (\<lambda>k h. map_of (store h) k),
     osdmap_calls = (\<lambda>h. (Inr (), h)),
     getters_calls = (\<lambda>h. (Inr (), h)),
     misc_calls = (\<lambda>h. (Inr (), h)),
     perf_counter_calls = (\<lambda>h. (Inr (), h)),
     remote = (\<lambda>m method args h.
        if m \<noteq> ''influx'' then (Inl ImportError, h)
        else if method \<noteq> ''handle_command'' then (Inl NameError, h)
        else (Inr (), h)),
     mgr_map_available = (\<lambda>h. [''influx'', ''dashboard'']),
     mgr_map_modules = (\<lambda>h. [''influx'']),
     list_of_set = (\<lambda>xs. xs)\<rparr>"

text \<open>The same host, except that it drops every configuration write.\<close>

definition forgetful_host :: "host host_api" where
  "forgetful_host = test_host\<lparr>set_config := (\<lambda>k v h. h)\<rparr>"

text \<open>The same host, except that every cross-module call returns normally.\<close>

definition lenient_host :: "host host_api" where
  "lenient_host = test_host\<lparr>remote := (\<lambda>m method args h. (Inr (), h))\<rparr>"

subsection \<open>The cross-module call of the host\<close>

text \<open>
  Modelled from the spec: the method \<open>remote\<close> of \<open>MgrModule\<close>, which the module
  imports from \<open>mgr_module\<close> and which is not in the source. The spec (sections 4.1, 6
  and 8) gives its contract: a call to a module that is disabled or does not exist raises
  the "module unavailable" kind, a call to a method that an otherwise valid module does
  not expose raises the distinct "method not found" kind, and any other call is carried
  out by the module called. The module catches the first kind as \<open>ImportError\<close> and
  the second as \<open>NameError\<close> (lines 229, 237 and 245). Here \<open>enabled h\<close> lists the
  modules that exist and are enabled in the host state \<open>h\<close>, \<open>exposes m method\<close>
  says that the module \<open>m\<close> has the method, and \<open>invoke\<close> is what a valid call does.
\<close>

definition remote_spec ::
  "('h \<Rightarrow> string list) \<Rightarrow> (string \<Rightarrow> string \<Rightarrow> bool) \<Rightarrow>
   (string \<Rightarrow> string \<Rightarrow> pyarg list \<Rightarrow> 'h \<Rightarrow> (pyexn + unit) \<times> 'h) \<Rightarrow>
   string \<Rightarrow> string \<Rightarrow> pyarg list \<Rightarrow> 'h \<Rightarrow> (pyexn + unit) \<times> 'h" where
  "remote_spec enabled exposes invoke m method args h =
     (if m \<notin> set (enabled h) then (Inl ImportError, h)
      else if \<not> exposes m method then (Inl NameError, h)
      else invoke m method args h)"

text \<open>
  The host of the previous section with this \<open>remote\<close>: the enabled modules are those
  of its \<open>mgr_map\<close>, each has the one method \<open>handle_command\<close>, and a valid call
  returns.
\<close>

definition spec_host :: "host host_api" where
  "spec_host = test_host\<lparr>remote :=
     remote_spec (mgr_map_modules test_host) (\<lambda>m method. method = ''handle_command'')
       (\<lambda>m method args h. (Inr (), h))\<rparr>"

subsection \<open>The serve thread\<close>

text \<open>
  The places of the thread that runs \<open>serve\<close>, one for each access to the shared
  attributes:
  \<^item> \<open>Top\<close>: line 279, about to compare \<open>_workload\<close> with \<open>WORKLOAD_COMMAND_SPAM\<close>;
  \<^item> \<open>TestShutdown\<close>: line 281, about to compare it with \<open>SHUTDOWN\<close>;
  \<^item> \<open>TestThrow\<close>: line 284, about to compare it with \<open>WORKLOAD_THROW_EXCEPTION\<close>;
  \<^item> \<open>Waiting\<close>: line 288, inside \<open>_event.wait()\<close>;
  \<^item> \<open>Woken\<close>: line 289, about to call \<open>_event.clear()\<close>;
  \<^item> \<open>SpamTest\<close>: line 257, about to read \<open>_event.is_set()\<close>;
  \<^item> \<open>SpamSend\<close>: line 258, the event was read as not set, and the calls up to
    \<open>send_command\<close> of line 265 are ahead;
  \<^item> \<open>SpamAwait\<close>: line 271, the command is sent and \<open>result.wait()\<close> is ahead;
  \<^item> \<open>SpamLeave\<close>: line 274, about to call \<open>_event.clear()\<close>;
  \<^item> \<open>Exited\<close>: after the \<open>break\<close> of line 283, \<open>serve\<close> has returned;
  \<^item> \<open>Raised e\<close>: \<open>serve\<close> has ended with the exception \<open>e\<close>.
\<close>

datatype pc =
    Top
  | TestShutdown
  | TestThrow
  | Waiting
  | Woken
  | SpamTest
  | SpamSend
  | SpamAwait
  | SpamLeave
  | Exited
  | Raised pyexn

text \<open>
  What the host and the random generator give to one step of the thread:
  \<open>Returns x w\<close> when the host calls of the step return, where \<open>x\<close> is the
  floating-point number that line 261 computes as \<open>random.random() * count\<close>, with
  \<open>count = len(dump['osds'])\<close>, and \<open>w\<close> is the second result of
  \<open>random.random()\<close> (line 262); \<open>Raises e\<close> when one of the host calls raises
  \<open>e\<close>. The floating-point product is taken as it comes out of the machine, rounding
  included, and is not computed here. A step that calls nothing ignores its input.
\<close>

datatype host_in = Returns real real | Raises pyexn

text \<open>\<open>int(x)\<close> truncates towards zero.\<close>

definition py_int :: "real \<Rightarrow> int" where
  "py_int x = (if 0 \<le> x then \<lfloor>x\<rfloor> else \<lceil>x\<rceil>)"

text \<open>
  \<open>in_flight\<close> counts the commands sent whose result has not been awaited
  (a history variable, like \<open>trace\<close>).
\<close>

record system =
  shared :: module
  pc :: pc
  in_flight :: nat

definition send_command :: "string \<Rightarrow> string \<Rightarrow> int \<Rightarrow> real \<Rightarrow> module \<Rightarrow> module" where
  "send_command svc prefix i w self = self\<lparr>trace := trace self @ [SendCommand svc prefix i w]\<rparr>"

definition await_result :: "module \<Rightarrow> module" where
  "await_result self = self\<lparr>trace := trace self @ [AwaitResult]\<rparr>"

definition event_wait :: "module \<Rightarrow> module" where
  "event_wait self = self\<lparr>trace := trace self @ [EventWait]\<rparr>"

text \<open>
  One step of \<open>serve\<close> (lines 277-289) and of \<open>_command_spam\<close> (lines 255-275),
  which it calls. In \<open>Waiting\<close> the thread is blocked while the event is not set: the
  step changes nothing. Nothing in either function catches an exception.
\<close>

definition serve_step :: "host_in \<Rightarrow> system \<Rightarrow> system" where
  "serve_step i s = (case pc s of
      Top \<Rightarrow>
        if workload (shared s) = Some WORKLOAD_COMMAND_SPAM
        then s\<lparr>shared := log_info ''Starting command_spam workload...'' (shared s),
               pc := SpamTest\<rparr>
        else s\<lparr>pc := TestShutdown\<rparr>
    | TestShutdown \<Rightarrow>
        if workload (shared s) = Some SHUTDOWN
        then s\<lparr>shared := log_info ''Shutting down...'' (shared s), pc := Exited\<rparr>
        else s\<lparr>pc := TestThrow\<rparr>
    | TestThrow \<Rightarrow>
        if workload (shared s) = Some WORKLOAD_THROW_EXCEPTION
        then s\<lparr>pc := Raised (RuntimeError ''Synthetic exception in serve'')\<rparr>
        else s\<lparr>shared := log_info ''Waiting for workload request...'' (shared s),
               pc := Waiting\<rparr>
    | Waiting \<Rightarrow>
        if event (shared s) then s\<lparr>shared := event_wait (shared s), pc := Woken\<rparr> else s
    | Woken \<Rightarrow> s\<lparr>shared := event_clear (shared s), pc := Top\<rparr>
    | SpamTest \<Rightarrow>
        if \<not> event (shared s) then s\<lparr>pc := SpamSend\<rparr> else s\<lparr>pc := SpamLeave\<rparr>
    | SpamSend \<Rightarrow>
        (case i of
           Returns x w \<Rightarrow>
             s\<lparr>shared := send_command ''mon'' ''osd reweight'' (py_int x) w (shared s),
               in_flight := in_flight s + 1,
               pc := SpamAwait\<rparr>
         | Raises e \<Rightarrow> s\<lparr>pc := Raised e\<rparr>)
    | SpamAwait \<Rightarrow>
        (case i of
           Returns x w \<Rightarrow>
             s\<lparr>shared := await_result (shared s), in_flight := in_flight s - 1, pc := SpamTest\<rparr>
         | Raises e \<Rightarrow> s\<lparr>pc := Raised e\<rparr>)
    | SpamLeave \<Rightarrow>
        s\<lparr>shared := log_info ''Ended command_spam workload...'' (event_clear (shared s)),
          pc := Top\<rparr>
    | Exited \<Rightarrow> s
    | Raised e \<Rightarrow> s)"

text \<open>
  The moves of the whole module: a step of the \<open>serve\<close> thread, or one of the two
  things another thread does to the shared attributes, a write of \<open>_workload\<close> or
  \<open>_event.set()\<close>. A schedule is a list of moves, in the order they happen.
\<close>

datatype move = Serve host_in | Write "string option" | Signal

fun is_serve :: "move \<Rightarrow> bool" where
  "is_serve (Serve i) = True"
| "is_serve (Write v) = False"
| "is_serve Signal = False"

fun run_move :: "move \<Rightarrow> system \<Rightarrow> system" where
  "run_move (Serve i) s = serve_step i s"
| "run_move (Write v) s = s\<lparr>shared := set_workload v (shared s)\<rparr>"
| "run_move Signal s = s\<lparr>shared := event_set (shared s)\<rparr>"

fun run :: "move list \<Rightarrow> system \<Rightarrow> system" where
  "run [] s = s"
| "run (m # ms) s = run ms (run_move m s)"

text \<open>The moves of a schedule that are not the \<open>serve\<close> thread's.\<close>

definition others :: "move list \<Rightarrow> move list" where
  "others ms = filter (\<lambda>m. \<not> is_serve m) ms"

fun returns :: "host_in \<Rightarrow> bool" where
  "returns (Returns x w) = True"
| "returns (Raises e) = False"

text \<open>The module when the host starts \<open>serve\<close>.\<close>

definition start :: system where
  "start = \<lparr>shared = init, pc = Top, in_flight = 0\<rparr>"

text \<open>The numbers of commands sent and of results awaited in a history.\<close>

fun sends :: "action list \<Rightarrow> nat" where
  "sends [] = 0"
| "sends (SendCommand svc prefix i w # as) = Suc (sends as)"
| "sends (a # as) = sends as"

fun awaits :: "action list \<Rightarrow> nat" where
  "awaits [] = 0"
| "awaits (AwaitResult # as) = Suc (awaits as)"
| "awaits (a # as) = awaits as"

text \<open>
  What holds of the history variables wherever the thread is: every command sent has
  been awaited, but for the one in flight, and a command is in flight only between
  \<open>send_command\<close> and \<open>result.wait()\<close>.
\<close>

definition spam_inv :: "system \<Rightarrow> bool" where
  "spam_inv s = (sends (trace (shared s)) = awaits (trace (shared s)) + in_flight s \<and>
     (case pc s of
        SpamAwait \<Rightarrow> in_flight s = 1
      | Raised e \<Rightarrow> in_flight s \<le> 1
      | _ \<Rightarrow> in_flight s = 0))"

subsection \<open>Statements that leave the shared attributes alone\<close>

definition keeps_shared :: "'h stmt \<Rightarrow> bool" where
  "keeps_shared c = (\<forall>self h.
      workload (fst (snd (c (self, h)))) = workload self \<and>
      event (fst (snd (c (self, h)))) = event self \<and>
      trace (fst (snd (c (self, h)))) = trace self)"

section \<open>Properties of the command handler\<close>

text \<open>
  C3: a \<open>background start\<close> command whose workload is neither \<open>command_spam\<close> nor
  \<open>throw_exception\<close> returns status \<open>-EINVAL\<close> (that is, -22) with the message
  \<open>Workload not found '<name>'\<close>, which carries the rejected name, and leaves every
  attribute of the module (so \<open>_workload\<close> and \<open>_event\<close>) and the host as they were.
\<close>

theorem start_unknown_workload:
  assumes "command ''prefix'' = Some ''mgr self-test background start''"
    and "command ''workload'' = Some w"
    and "w \<notin> {''command_spam'', ''throw_exception''}"
  shows "handle_command api command (self, h) =
           (Inr (- 22, [], ''Workload not found '' @ [CHR 0x27] @ w @ [CHR 0x27]), self, h)"
  using assms
  by (simp add: handle_command_def WORKLOADS_def WORKLOAD_COMMAND_SPAM_def
      WORKLOAD_THROW_EXCEPTION_def EINVAL_def)

theorem start_unknown_workload_witness:
  "[''prefix'' \<mapsto> ''mgr self-test background start'', ''workload'' \<mapsto> ''shutdown'']
      ''prefix'' = Some ''mgr self-test background start'' \<and>
   [''prefix'' \<mapsto> ''mgr self-test background start'', ''workload'' \<mapsto> ''shutdown'']
      ''workload'' = Some ''shutdown'' \<and>
   ''shutdown'' \<notin> {''command_spam'', ''throw_exception''} \<and>
   handle_command test_host
      [''prefix'' \<mapsto> ''mgr self-test background start'', ''workload'' \<mapsto> ''shutdown'']
      (init, empty_host) =
     (Inr (- 22, [], ''Workload not found '' @ [CHR 0x27] @ ''shutdown'' @ [CHR 0x27]),
      init, empty_host)"
  using start_unknown_workload [of
      "[''prefix'' \<mapsto> ''mgr self-test background start'', ''workload'' \<mapsto> ''shutdown'']"
      "''shutdown''" test_host init empty_host]
  by simp

subsection \<open>What the handlers do to the shared attributes\<close>

text \<open>
  The self-test and the cross-module call test only log and call the host: they leave
  \<open>_workload\<close>, \<open>_event\<close> and the history as they found them, whether they return
  or raise.
\<close>

lemma keeps_shared_on_host: "keeps_shared (on_host f)"
  by (simp add: keeps_shared_def on_host_def)

lemma keeps_shared_log: "keeps_shared (on_self (log_info msg))"
  by (simp add: keeps_shared_def on_self_def log_info_def)

lemma keeps_shared_host_call: "keeps_shared (host_call f)"
  by (simp add: keeps_shared_def host_call_def split: prod.splits)

lemma keeps_shared_assert: "keeps_shared (py_assert b)"
  by (simp add: keeps_shared_def py_assert_def)

lemma keeps_shared_expect_raise: "keeps_shared c \<Longrightarrow> keeps_shared (expect_raise kind msg c)"
  unfolding keeps_shared_def expect_raise_def
  by (auto split: prod.splits sum.splits) (metis fst_conv snd_conv)+

lemma keeps_shared_block: "(\<And>c. c \<in> set cs \<Longrightarrow> keeps_shared c) \<Longrightarrow> keeps_shared (block cs)"
proof (induction cs)
  case Nil
  show ?case by (simp add: keeps_shared_def)
next
  case (Cons c cs)
  have c: "keeps_shared c" and rest: "keeps_shared (block cs)"
    using Cons by simp_all
  show ?case
    unfolding keeps_shared_def
  proof (intro allI)
    fix self h
    obtain r self1 h1 where s1: "c (self, h) = (r, self1, h1)"
      by (cases "c (self, h)") auto
    from c have "workload (fst (snd (c (self, h)))) = workload self \<and>
      event (fst (snd (c (self, h)))) = event self \<and>
      trace (fst (snd (c (self, h)))) = trace self"
      unfolding keeps_shared_def by blast
    with s1 have k1: "workload self1 = workload self \<and> event self1 = event self \<and> trace self1 = trace self"
      by simp
    from rest have k2: "workload (fst (snd (block cs (self1, h1)))) = workload self1 \<and>
      event (fst (snd (block cs (self1, h1)))) = event self1 \<and>
      trace (fst (snd (block cs (self1, h1)))) = trace self1"
      unfolding keeps_shared_def by blast
    show "workload (fst (snd (block (c # cs) (self, h)))) = workload self \<and>
      event (fst (snd (block (c # cs) (self, h)))) = event self \<and>
      trace (fst (snd (block (c # cs) (self, h)))) = trace self"
      using s1 k1 k2 by (cases r) simp_all
  qed
qed

lemma keeps_shared_self_test_store: "keeps_shared (self_test_store api)"
proof -
  have "\<And>ks. keeps_shared (block [
       on_host (set_store api ''testkey'' ''testvalue''),
       py_assert (\<lambda>h. get_store api ''testkey'' h = Some ''testvalue''),
       on_host (set_store_json api ''testjsonkey'' (JObj [(''testblob'', JInt 2)])),
       py_assert (\<lambda>h. get_store_json api ''testjsonkey'' h = Some (JObj [(''testblob'', JInt 2)])),
       py_assert (\<lambda>h. sort (map fst (get_store_prefix api ''test'' h)) =
                       sort (remdups ([''testkey'', ''testjsonkey''] @ ks)))])"
    by (rule keeps_shared_block) (auto simp: keeps_shared_on_host keeps_shared_assert)
  then show ?thesis
    unfolding keeps_shared_def self_test_store_def by (simp add: Let_def)
qed

lemma keeps_shared_self_test: "keeps_shared (self_test api)"
  unfolding self_test_def self_test_osdmap_def self_test_getters_def self_test_config_def
    self_test_misc_def self_test_perf_counters_def
  by (intro keeps_shared_block)
     (auto simp: keeps_shared_on_host keeps_shared_log keeps_shared_host_call
        keeps_shared_assert keeps_shared_self_test_store intro!: keeps_shared_block)

lemma keeps_shared_test_remote_calls: "keeps_shared (test_remote_calls api)"
proof -
  have pick: "keeps_shared (\<lambda>(self, h).
        case list_of_set api (filter (\<lambda>m. m \<notin> set (mgr_map_modules api h))
               (remdups (mgr_map_available api h))) of
             [] \<Rightarrow> (Inl IndexError, self, h)
           | disabled_module # rest \<Rightarrow>
               expect_raise ImportError ''ImportError not raised for disabled module''
                 (host_call (remote api disabled_module ''handle_command'' [ArgDict influx_self_test]))
                 (self, h))"
  proof -
    have er: "\<And>d self h. keeps_shared (expect_raise ImportError ''ImportError not raised for disabled module''
                 (host_call (remote api d ''handle_command'' [ArgDict influx_self_test])))"
      by (rule keeps_shared_expect_raise [OF keeps_shared_host_call])
    show ?thesis
      using er unfolding keeps_shared_def by (simp add: Let_def split: list.splits)
  qed
  show ?thesis
    unfolding test_remote_calls_def Let_def
    by (intro keeps_shared_block)
       (auto simp: pick keeps_shared_host_call intro!: keeps_shared_expect_raise)
qed


lemma snd_wrap:
  "snd (case x of (Inl e, s) \<Rightarrow> (Inl e, s) | (Inr u, s) \<Rightarrow> (Inr (f u), s)) = snd x"
  by (cases x; cases "fst x") auto

lemma fst_wrap:
  "fst (case x of (Inl e, s) \<Rightarrow> (Inl e, s) | (Inr u, s) \<Rightarrow> (Inr (f u), s)) =
     (case fst x of Inl e \<Rightarrow> Inl e | Inr u \<Rightarrow> Inr (f u))"
  by (cases x; cases "fst x") auto

lemma self_test_shared:
  "workload (fst (snd (self_test api (self, h)))) = workload self"
  "event (fst (snd (self_test api (self, h)))) = event self"
  "trace (fst (snd (self_test api (self, h)))) = trace self"
  using keeps_shared_self_test [of api] unfolding keeps_shared_def by blast+

lemma test_remote_calls_shared:
  "workload (fst (snd (test_remote_calls api (self, h)))) = workload self"
  "event (fst (snd (test_remote_calls api (self, h)))) = event self"
  "trace (fst (snd (test_remote_calls api (self, h)))) = trace self"
  using keeps_shared_test_remote_calls [of api] unfolding keeps_shared_def by blast+

lemma handle_command_effect:
  "(trace (fst (snd (handle_command api command (self, h)))) = trace self \<and>
    workload (fst (snd (handle_command api command (self, h)))) = workload self \<and>
    event (fst (snd (handle_command api command (self, h)))) = event self) \<or>
   (trace (fst (snd (handle_command api command (self, h)))) =
      trace self @ [WriteWorkload (workload (fst (snd (handle_command api command (self, h))))), EventSet] \<and>
    event (fst (snd (handle_command api command (self, h)))) \<and>
    workload (fst (snd (handle_command api command (self, h)))) \<in>
      {None, Some ''command_spam'', Some ''throw_exception''})"
proof (cases "command ''prefix''")
  case None
  then show ?thesis by (simp add: handle_command_def)
next
  case (Some p)
  then show ?thesis
    by (auto simp: handle_command_def snd_wrap self_test_shared test_remote_calls_shared
        set_workload_def event_set_def WORKLOADS_def WORKLOAD_COMMAND_SPAM_def
        WORKLOAD_THROW_EXCEPTION_def split: option.splits)
qed

subsection \<open>Commands that are rejected\<close>

text \<open>
  C9: a command whose prefix is none of the six prefixes of \<open>COMMANDS\<close> takes the
  last branch of \<open>handle_command\<close>: status \<open>-EINVAL\<close> (-22), the message
  \<open>Command not found '<prefix>'\<close> with the prefix in it, and the module and the host
  returned as they were. No prefix is left without a result.
\<close>

theorem unknown_command_rejected:
  assumes "command ''prefix'' = Some p"
    and "p \<notin> {''mgr self-test run'', ''mgr self-test background start'',
               ''mgr self-test background stop'', ''mgr self-test config get'',
               ''mgr self-test config get_localized'', ''mgr self-test remote''}"
  shows "handle_command api command (self, h) =
           (Inr (- 22, [], ''Command not found '' @ [CHR 0x27] @ p @ [CHR 0x27]), self, h)"
  using assms by (simp add: handle_command_def EINVAL_def)

theorem unknown_command_rejected_witness:
  "[''prefix'' \<mapsto> ''mgr self-test''] ''prefix'' = Some ''mgr self-test'' \<and>
   ''mgr self-test'' \<notin> {''mgr self-test run'', ''mgr self-test background start'',
               ''mgr self-test background stop'', ''mgr self-test config get'',
               ''mgr self-test config get_localized'', ''mgr self-test remote''} \<and>
   handle_command test_host [''prefix'' \<mapsto> ''mgr self-test''] (init, empty_host) =
     (Inr (- 22, [], ''Command not found '' @ [CHR 0x27] @ ''mgr self-test'' @ [CHR 0x27]),
      init, empty_host)"
  using unknown_command_rejected [of "[''prefix'' \<mapsto> ''mgr self-test'']" "''mgr self-test''"
      test_host init empty_host]
  by simp

subsection \<open>Stopping the background workload\<close>

text \<open>
  C4: \<open>background stop\<close> returns status 0 from every state and never raises. When
  \<open>_workload\<close> is a workload (any non-empty string, Python's test \<open>if self._workload\<close>)
  it writes \<open>None\<close>, sets the event and answers with the name of what it stopped;
  otherwise it changes nothing and answers that nothing was running. A second
  \<open>background stop\<close> right after the first is the second case: status 0, nothing changed.
\<close>

theorem stop_background:
  assumes "command ''prefix'' = Some ''mgr self-test background stop''"
  shows "handle_command api command (self, h) =
           (if truthy (workload self)
            then (Inr (0, [], ''Stopping background workload `'' @ py_str (workload self) @ ''`''),
                  self\<lparr>workload := None, event := True,
                       trace := trace self @ [WriteWorkload None, EventSet]\<rparr>, h)
            else (Inr (0, [], ''No background workload was running''), self, h)) \<and>
         (\<exists>msg. fst (handle_command api command (self, h)) = Inr (0, [], msg)) \<and>
         handle_command api command (snd (handle_command api command (self, h))) =
           (Inr (0, [], ''No background workload was running''),
            snd (handle_command api command (self, h)))"
  using assms by (simp add: handle_command_def set_workload_def event_set_def)

theorem stop_background_witness:
  "[''prefix'' \<mapsto> ''mgr self-test background stop''] ''prefix'' =
      Some ''mgr self-test background stop'' \<and>
   handle_command test_host [''prefix'' \<mapsto> ''mgr self-test background stop'']
      (init\<lparr>workload := Some ''command_spam''\<rparr>, empty_host) =
     (Inr (0, [], ''Stopping background workload `command_spam`''),
      init\<lparr>workload := None, event := True, trace := [WriteWorkload None, EventSet]\<rparr>,
      empty_host) \<and>
   handle_command test_host [''prefix'' \<mapsto> ''mgr self-test background stop'']
      (init\<lparr>workload := None, event := True, trace := [WriteWorkload None, EventSet]\<rparr>,
       empty_host) =
     (Inr (0, [], ''No background workload was running''),
      init\<lparr>workload := None, event := True, trace := [WriteWorkload None, EventSet]\<rparr>,
      empty_host)"
  using stop_background [of "[''prefix'' \<mapsto> ''mgr self-test background stop'']"
      test_host "init\<lparr>workload := Some ''command_spam''\<rparr>" empty_host]
  by (auto simp: init_def)


subsection \<open>The order of the write and the signal\<close>

text \<open>
  C5: in the history of the shared attributes, a call of \<open>handle_command\<close> adds either
  nothing, and then leaves \<open>_workload\<close> and \<open>_event\<close> alone, or exactly the write of
  the new \<open>_workload\<close> followed by \<open>_event.set()\<close>. A \<open>background start\<close> of a
  registered workload and a \<open>background stop\<close> of a running one add these two
  actions, in this order, and so does \<open>shutdown\<close>. So every write of \<open>_workload\<close>
  is followed by the signal, and no signal comes before its write.
\<close>

theorem workload_written_then_signalled:
  "((trace (fst (snd (handle_command api command (self, h)))) = trace self \<and>
     workload (fst (snd (handle_command api command (self, h)))) = workload self \<and>
     event (fst (snd (handle_command api command (self, h)))) = event self) \<or>
    (trace (fst (snd (handle_command api command (self, h)))) =
       trace self @
         [WriteWorkload (workload (fst (snd (handle_command api command (self, h))))), EventSet] \<and>
     event (fst (snd (handle_command api command (self, h)))))) \<and>
   (command ''prefix'' = Some ''mgr self-test background start'' \<and>
    command ''workload'' = Some w \<and> w \<in> {''command_spam'', ''throw_exception''} \<longrightarrow>
      fst (snd (handle_command api command (self, h))) =
        self\<lparr>workload := Some w, event := True,
             trace := trace self @ [WriteWorkload (Some w), EventSet]\<rparr>) \<and>
   (command ''prefix'' = Some ''mgr self-test background stop'' \<and> truthy (workload self) \<longrightarrow>
      fst (snd (handle_command api command (self, h))) =
        self\<lparr>workload := None, event := True,
             trace := trace self @ [WriteWorkload None, EventSet]\<rparr>) \<and>
   shutdown self =
     self\<lparr>workload := Some ''shutdown'', event := True,
          trace := trace self @ [WriteWorkload (Some ''shutdown''), EventSet]\<rparr>"
proof (intro conjI)
  show "(trace (fst (snd (handle_command api command (self, h)))) = trace self \<and>
     workload (fst (snd (handle_command api command (self, h)))) = workload self \<and>
     event (fst (snd (handle_command api command (self, h)))) = event self) \<or>
    (trace (fst (snd (handle_command api command (self, h)))) =
       trace self @
         [WriteWorkload (workload (fst (snd (handle_command api command (self, h))))), EventSet] \<and>
     event (fst (snd (handle_command api command (self, h)))))"
    using handle_command_effect [of api command self h] by blast
next
  show "command ''prefix'' = Some ''mgr self-test background start'' \<and>
    command ''workload'' = Some w \<and> w \<in> {''command_spam'', ''throw_exception''} \<longrightarrow>
      fst (snd (handle_command api command (self, h))) =
        self\<lparr>workload := Some w, event := True,
             trace := trace self @ [WriteWorkload (Some w), EventSet]\<rparr>"
    by (auto simp: handle_command_def set_workload_def event_set_def WORKLOADS_def
        WORKLOAD_COMMAND_SPAM_def WORKLOAD_THROW_EXCEPTION_def)
next
  show "command ''prefix'' = Some ''mgr self-test background stop'' \<and> truthy (workload self) \<longrightarrow>
      fst (snd (handle_command api command (self, h))) =
        self\<lparr>workload := None, event := True,
             trace := trace self @ [WriteWorkload None, EventSet]\<rparr>"
    by (simp add: handle_command_def set_workload_def event_set_def)
next
  show "shutdown self =
     self\<lparr>workload := Some ''shutdown'', event := True,
          trace := trace self @ [WriteWorkload (Some ''shutdown''), EventSet]\<rparr>"
    by (simp add: shutdown_def set_workload_def event_set_def SHUTDOWN_def)
qed

theorem workload_written_then_signalled_witness:
  "fst (snd (handle_command test_host
      [''prefix'' \<mapsto> ''mgr self-test background start'', ''workload'' \<mapsto> ''command_spam'']
      (init, empty_host))) =
     init\<lparr>workload := Some ''command_spam'', event := True,
          trace := [WriteWorkload (Some ''command_spam''), EventSet]\<rparr> \<and>
   fst (snd (handle_command test_host [''prefix'' \<mapsto> ''mgr self-test background stop'']
      (init\<lparr>workload := Some ''throw_exception''\<rparr>, empty_host))) =
     init\<lparr>workload := None, event := True, trace := [WriteWorkload None, EventSet]\<rparr> \<and>
   shutdown init =
     init\<lparr>workload := Some ''shutdown'', event := True,
          trace := [WriteWorkload (Some ''shutdown''), EventSet]\<rparr>"
  using workload_written_then_signalled [of test_host
      "[''prefix'' \<mapsto> ''mgr self-test background start'', ''workload'' \<mapsto> ''command_spam'']"
      init empty_host "''command_spam''"]
    workload_written_then_signalled [of test_host
      "[''prefix'' \<mapsto> ''mgr self-test background stop'']"
      "init\<lparr>workload := Some ''throw_exception''\<rparr>" empty_host "''command_spam''"]
  by (simp add: init_def)

subsection \<open>Who can request the shutdown\<close>

text \<open>
  C10: no command writes the value \<open>shutdown\<close> into \<open>_workload\<close>: whatever the
  command and its arguments, \<open>handle_command\<close> either writes nothing or writes a
  value other than \<open>shutdown\<close>. The name \<open>shutdown\<close> is not in \<open>WORKLOADS\<close>, and
  \<open>background start\<close> rejects it with \<open>-EINVAL\<close>. The function \<open>shutdown\<close>
  writes it.
\<close>

theorem shutdown_not_writable_by_command:
  "((trace (fst (snd (handle_command api command (self, h)))) = trace self \<and>
     workload (fst (snd (handle_command api command (self, h)))) = workload self) \<or>
    (trace (fst (snd (handle_command api command (self, h)))) =
       trace self @
         [WriteWorkload (workload (fst (snd (handle_command api command (self, h))))), EventSet] \<and>
     workload (fst (snd (handle_command api command (self, h)))) \<noteq> Some ''shutdown'')) \<and>
   (command ''prefix'' = Some ''mgr self-test background start'' \<and>
    command ''workload'' = Some ''shutdown'' \<longrightarrow>
      handle_command api command (self, h) =
        (Inr (- 22, [], ''Workload not found '' @ [CHR 0x27] @ ''shutdown'' @ [CHR 0x27]),
         self, h)) \<and>
   ''shutdown'' \<notin> set WORKLOADS \<and>
   workload (shutdown self) = Some ''shutdown''"
proof (intro conjI)
  show "(trace (fst (snd (handle_command api command (self, h)))) = trace self \<and>
     workload (fst (snd (handle_command api command (self, h)))) = workload self) \<or>
    (trace (fst (snd (handle_command api command (self, h)))) =
       trace self @
         [WriteWorkload (workload (fst (snd (handle_command api command (self, h))))), EventSet] \<and>
     workload (fst (snd (handle_command api command (self, h)))) \<noteq> Some ''shutdown'')"
    using handle_command_effect [of api command self h] by auto
next
  show "command ''prefix'' = Some ''mgr self-test background start'' \<and>
    command ''workload'' = Some ''shutdown'' \<longrightarrow>
      handle_command api command (self, h) =
        (Inr (- 22, [], ''Workload not found '' @ [CHR 0x27] @ ''shutdown'' @ [CHR 0x27]),
         self, h)"
    by (simp add: handle_command_def WORKLOADS_def WORKLOAD_COMMAND_SPAM_def
        WORKLOAD_THROW_EXCEPTION_def EINVAL_def)
next
  show "''shutdown'' \<notin> set WORKLOADS"
    by (simp add: WORKLOADS_def WORKLOAD_COMMAND_SPAM_def WORKLOAD_THROW_EXCEPTION_def)
next
  show "workload (shutdown self) = Some ''shutdown''"
    by (simp add: shutdown_def set_workload_def event_set_def SHUTDOWN_def)
qed

theorem shutdown_not_writable_by_command_witness:
  "handle_command test_host
      [''prefix'' \<mapsto> ''mgr self-test background start'', ''workload'' \<mapsto> ''shutdown'']
      (init, empty_host) =
     (Inr (- 22, [], ''Workload not found '' @ [CHR 0x27] @ ''shutdown'' @ [CHR 0x27]),
      init, empty_host) \<and>
   workload (shutdown init) = Some ''shutdown''"
  using shutdown_not_writable_by_command [of test_host
      "[''prefix'' \<mapsto> ''mgr self-test background start'', ''workload'' \<mapsto> ''shutdown'']"
      init empty_host]
  by simp


subsection \<open>Reading the configuration\<close>

text \<open>
  C8, as the code has it: \<open>config get\<close> and \<open>config get_localized\<close> return status 0
  and \<open>str\<close> of what the host's \<open>get_config\<close>, respectively
  \<open>get_localized_config\<close>, returns for the key, and change neither the module's
  attributes nor the host. For a value \<open>v\<close> the output is \<open>v\<close>; for \<open>None\<close>, which
  is how the host reports a key that is not there, the output is the four characters
  \<open>None\<close>, not the empty string.
\<close>

theorem config_get_passes_through:
  assumes "command ''key'' = Some key"
  shows "(command ''prefix'' = Some ''mgr self-test config get'' \<longrightarrow>
            handle_command api command (self, h) =
              (Inr (0, (case get_config api key h of None \<Rightarrow> ''None'' | Some v \<Rightarrow> v), []),
               self, h)) \<and>
         (command ''prefix'' = Some ''mgr self-test config get_localized'' \<longrightarrow>
            handle_command api command (self, h) =
              (Inr (0, (case get_localized_config api key h of None \<Rightarrow> ''None'' | Some v \<Rightarrow> v),
                    []),
               self, h))"
  using assms by (auto simp: handle_command_def split: option.splits)

theorem config_get_passes_through_witness:
  "handle_command test_host
      [''prefix'' \<mapsto> ''mgr self-test config get'', ''key'' \<mapsto> ''testkey'']
      (init, empty_host\<lparr>config := [(''testkey'', ''testvalue'')]\<rparr>) =
     (Inr (0, ''testvalue'', []), init, empty_host\<lparr>config := [(''testkey'', ''testvalue'')]\<rparr>) \<and>
   handle_command test_host
      [''prefix'' \<mapsto> ''mgr self-test config get_localized'', ''key'' \<mapsto> ''testkey'']
      (init, empty_host\<lparr>config := [(''testkey'', ''testvalue'')]\<rparr>) =
     (Inr (0, ''None'', []), init, empty_host\<lparr>config := [(''testkey'', ''testvalue'')]\<rparr>)"
  using config_get_passes_through [of
      "[''prefix'' \<mapsto> ''mgr self-test config get'', ''key'' \<mapsto> ''testkey'']" "''testkey''"
      test_host init "empty_host\<lparr>config := [(''testkey'', ''testvalue'')]\<rparr>"]
    config_get_passes_through [of
      "[''prefix'' \<mapsto> ''mgr self-test config get_localized'', ''key'' \<mapsto> ''testkey'']"
      "''testkey''" test_host init "empty_host\<lparr>config := [(''testkey'', ''testvalue'')]\<rparr>"]
  by (simp add: test_host_def empty_host_def)

text \<open>
  The key \<open>testkey\<close> is absent from the empty host, and the output of \<open>config get\<close>
  is \<open>None\<close>: the result is not empty.
\<close>

theorem config_get_absent_counterexample:
  "get_config test_host ''testkey'' empty_host = None \<and>
   fst (handle_command test_host
      [''prefix'' \<mapsto> ''mgr self-test config get'', ''key'' \<mapsto> ''testkey'']
      (init, empty_host)) = Inr (0, ''None'', []) \<and>
   fst (handle_command test_host
      [''prefix'' \<mapsto> ''mgr self-test config get'', ''key'' \<mapsto> ''testkey'']
      (init, empty_host)) \<noteq> Inr (0, [], [])"
  by (simp add: handle_command_def test_host_def empty_host_def)

subsection \<open>Running the self-test\<close>

text \<open>
  The self-test passes on the host that keeps what it is given. When the two stretches
  of host calls before it return, a configuration value that does not read back makes
  \<open>_self_test\<close> raise \<open>AssertionError\<close>.
\<close>

lemma self_test_test_host: "fst (self_test test_host (init, empty_host)) = Inr ()"
  by code_simp


lemma self_test_config_fails:
  assumes "get_config api ''testkey'' (set_config api ''testkey'' ''testvalue'' h) \<noteq> Some ''testvalue''"
  shows "fst (self_test_config api (self, h)) = Inl AssertionError"
  using assms by (simp add: self_test_config_def on_host_def py_assert_def)

lemma self_test_reaches_config:
  assumes "fst (osdmap_calls api h) = Inr ()"
    and "fst (getters_calls api (snd (osdmap_calls api h))) = Inr ()"
    and "get_config api ''testkey''
           (set_config api ''testkey'' ''testvalue''
              (snd (getters_calls api (snd (osdmap_calls api h))))) \<noteq> Some ''testvalue''"
  shows "fst (self_test api (self, h)) = Inl AssertionError"
proof -
  obtain h1 where o: "osdmap_calls api h = (Inr (), h1)"
    using assms(1) by (cases "osdmap_calls api h") auto
  obtain h2 where g: "getters_calls api h1 = (Inr (), h2)"
    using assms(2) o by (cases "getters_calls api h1") auto
  let ?m = "log_info ''Finished self-test procedure.''
              (log_info ''Running self-test procedure...'' self)"
  have "fst (self_test_config api (?m, h2)) = Inl AssertionError"
    using assms(3) o g by (intro self_test_config_fails) simp
  then obtain st where c: "self_test_config api (?m, h2) = (Inl AssertionError, st)"
    by (cases "self_test_config api (?m, h2)") auto
  have s0: "on_self (log_info ''Running self-test procedure...'') (self, h) =
              (Inr (), log_info ''Running self-test procedure...'' self, h)"
    by (simp add: on_self_def)
  have s1: "self_test_osdmap api (log_info ''Running self-test procedure...'' self, h) =
              (Inr (), ?m, h1)"
    using o by (simp add: self_test_osdmap_def host_call_def on_self_def)
  have s2: "self_test_getters api (?m, h1) = (Inr (), ?m, h2)"
    using g by (simp add: self_test_getters_def host_call_def)
  show ?thesis
    by (simp add: self_test_def s0 s1 s2 c)
qed

text \<open>
  C6, as the code has it: \<open>self-test run\<close> runs \<open>_self_test\<close> within the call, and
  answers \<open>(0, '', 'Self-test succeeded')\<close> exactly when \<open>_self_test\<close> returns. An
  exception of \<open>_self_test\<close> is not caught: \<open>handle_command\<close> ends with the same
  exception and returns no result. In particular a configuration value that does not
  read back ends the call with \<open>AssertionError\<close>, which carries no text. Either way
  \<open>_workload\<close>, \<open>_event\<close> and the history are as before.
\<close>

theorem run_self_test:
  assumes "command ''prefix'' = Some ''mgr self-test run''"
  shows "fst (handle_command api command (self, h)) =
           (case fst (self_test api (self, h)) of
              Inl e \<Rightarrow> Inl e
            | Inr u \<Rightarrow> Inr (0, [], ''Self-test succeeded'')) \<and>
         workload (fst (snd (handle_command api command (self, h)))) = workload self \<and>
         event (fst (snd (handle_command api command (self, h)))) = event self \<and>
         trace (fst (snd (handle_command api command (self, h)))) = trace self \<and>
         (fst (osdmap_calls api h) = Inr () \<and>
          fst (getters_calls api (snd (osdmap_calls api h))) = Inr () \<and>
          get_config api ''testkey''
            (set_config api ''testkey'' ''testvalue''
               (snd (getters_calls api (snd (osdmap_calls api h))))) \<noteq> Some ''testvalue'' \<longrightarrow>
          fst (handle_command api command (self, h)) = Inl AssertionError)"
proof -
  have hc: "handle_command api command (self, h) =
      (case self_test api (self, h) of
         (Inl e, s) \<Rightarrow> (Inl e, s)
       | (Inr u, s) \<Rightarrow> (Inr (0, [], ''Self-test succeeded''), s))"
    using assms by (simp add: handle_command_def)
  have r: "fst (handle_command api command (self, h)) =
           (case fst (self_test api (self, h)) of
              Inl e \<Rightarrow> Inl e
            | Inr u \<Rightarrow> Inr (0, [], ''Self-test succeeded''))"
    unfolding hc by (rule fst_wrap)
  have s: "snd (handle_command api command (self, h)) = snd (self_test api (self, h))"
    unfolding hc by (rule snd_wrap)
  show ?thesis
    using r self_test_reaches_config [of api h self]
    by (simp add: s self_test_shared)
qed

theorem run_self_test_witness:
  "[''prefix'' \<mapsto> ''mgr self-test run''] ''prefix'' = Some ''mgr self-test run'' \<and>
   fst (handle_command test_host [''prefix'' \<mapsto> ''mgr self-test run''] (init, empty_host)) =
     Inr (0, [], ''Self-test succeeded'') \<and>
   fst (handle_command forgetful_host [''prefix'' \<mapsto> ''mgr self-test run'']
     (init, empty_host)) = Inl AssertionError"
proof -
  have p: "[''prefix'' \<mapsto> ''mgr self-test run''] ''prefix'' = Some ''mgr self-test run''"
    by simp
  have a: "fst (handle_command test_host [''prefix'' \<mapsto> ''mgr self-test run'']
      (init, empty_host)) = Inr (0, [], ''Self-test succeeded'')"
    using p run_self_test [where command = "[''prefix'' \<mapsto> ''mgr self-test run'']"
        and api = test_host and self = init and h = empty_host]
    by (simp add: self_test_test_host)
  have b: "fst (handle_command forgetful_host [''prefix'' \<mapsto> ''mgr self-test run'']
      (init, empty_host)) = Inl AssertionError"
  proof -
    have c1: "fst (osdmap_calls forgetful_host empty_host) = Inr ()"
      by (simp add: forgetful_host_def test_host_def)
    have c2: "fst (getters_calls forgetful_host
                (snd (osdmap_calls forgetful_host empty_host))) = Inr ()"
      by (simp add: forgetful_host_def test_host_def)
    have c3: "get_config forgetful_host ''testkey''
                (set_config forgetful_host ''testkey'' ''testvalue''
                   (snd (getters_calls forgetful_host
                      (snd (osdmap_calls forgetful_host empty_host))))) \<noteq> Some ''testvalue''"
      by (simp add: forgetful_host_def test_host_def empty_host_def)
    show ?thesis
      using p c1 c2 c3 run_self_test [where command = "[''prefix'' \<mapsto> ''mgr self-test run'']"
          and api = forgetful_host and self = init and h = empty_host]
      by blast
  qed
  show ?thesis
    using p a b by simp
qed

text \<open>
  On the host that drops configuration writes the call ends with \<open>AssertionError\<close>
  and no result is returned.
\<close>

theorem self_test_failure_counterexample:
  "fst (handle_command forgetful_host [''prefix'' \<mapsto> ''mgr self-test run'']
      (init, empty_host)) = Inl AssertionError"
  by (simp add: handle_command_def self_test_def self_test_osdmap_def self_test_getters_def
      self_test_config_def on_self_def on_host_def host_call_def py_assert_def
      forgetful_host_def test_host_def empty_host_def)

subsection \<open>Testing the cross-module calls\<close>

text \<open>
  What \<open>_test_remote_calls\<close> returns, from what the four calls do, for any
  \<open>remote\<close>; and what the \<open>remote\<close> of the spec does.
\<close>

lemma expect_raise_host_call:
  assumes "f h = (r, h')"
  shows "expect_raise kind msg (host_call f) (self, h) =
           (if r = Inr () then Inl (RuntimeError msg)
            else if r = Inl kind then Inr () else r, self, h')"
  using assms by (cases r) (auto simp: expect_raise_def host_call_def)

lemma test_remote_calls_result:
  assumes "remote api ''influx'' ''handle_command'' [ArgStr [], ArgDict influx_self_test] h =
             (Inr (), h1)"
    and "list_of_set api (filter (\<lambda>m. m \<notin> set (mgr_map_modules api h1))
           (remdups (mgr_map_available api h1))) = d # ds"
    and "remote api d ''handle_command'' [ArgDict influx_self_test] h1 = (r2, h2)"
    and "remote api ''idontexist'' ''handle_command'' [ArgDict influx_self_test] h2 = (r3, h3)"
    and "remote api ''influx'' ''idontexist'' [ArgDict influx_self_test] h3 = (r4, h4)"
  shows "fst (test_remote_calls api (self, h)) =
           (if r2 = Inr () then Inl (RuntimeError ''ImportError not raised for disabled module'')
            else if r2 \<noteq> Inl ImportError then r2
            else if r3 = Inr ()
              then Inl (RuntimeError ''ImportError not raised for nonexistent module'')
            else if r3 \<noteq> Inl ImportError then r3
            else if r4 = Inr () then Inl (RuntimeError ''KeyError not raised'')
            else if r4 \<noteq> Inl NameError then r4
            else Inr ())"
proof -
  have c1: "host_call (remote api ''influx'' ''handle_command''
              [ArgStr [], ArgDict influx_self_test]) (self, h) = (Inr (), self, h1)"
    using assms(1) by (simp add: host_call_def)
  note c2 = expect_raise_host_call [where f = "remote api d ''handle_command''
              [ArgDict influx_self_test]", OF assms(3)]
  note c3 = expect_raise_host_call [where f = "remote api ''idontexist'' ''handle_command''
              [ArgDict influx_self_test]", OF assms(4)]
  note c4 = expect_raise_host_call [where f = "remote api ''influx'' ''idontexist''
              [ArgDict influx_self_test]", OF assms(5)]
  show ?thesis
    by (cases r2; cases r3; cases r4)
       (simp_all add: test_remote_calls_def Let_def c1 assms(2) c2 c3 c4)
qed

lemma remote_spec_unavailable:
  assumes "remote api = remote_spec (mgr_map_modules api) exposes invoke"
    and "m \<notin> set (mgr_map_modules api h)"
  shows "remote api m method args h = (Inl ImportError, h)"
  using assms by (simp add: remote_spec_def)

lemma remote_spec_no_method:
  assumes "remote api = remote_spec (mgr_map_modules api) exposes invoke"
    and "m \<in> set (mgr_map_modules api h)" and "\<not> exposes m method"
  shows "remote api m method args h = (Inl NameError, h)"
  using assms by (simp add: remote_spec_def)

lemma remote_spec_valid:
  assumes "remote api = remote_spec (mgr_map_modules api) exposes invoke"
    and "m \<in> set (mgr_map_modules api h)" and "exposes m method"
  shows "remote api m method args h = invoke m method args h"
  using assms by (simp add: remote_spec_def)

lemma test_remote_calls_spec:
  assumes R: "remote api = remote_spec (mgr_map_modules api) exposes invoke"
    and perm: "\<forall>xs. set (list_of_set api xs) = set xs"
    and first: "invoke ''influx'' ''handle_command'' [ArgStr [], ArgDict influx_self_test] h =
                  (Inr (), h1)"
    and valid: "''influx'' \<in> set (mgr_map_modules api h)" "exposes ''influx'' ''handle_command''"
    and later: "''influx'' \<in> set (mgr_map_modules api h1)" "\<not> exposes ''influx'' ''idontexist''"
    and missing: "''idontexist'' \<notin> set (mgr_map_modules api h1)"
    and some: "\<not> set (mgr_map_available api h1) \<subseteq> set (mgr_map_modules api h1)"
  shows "test_remote_calls api (self, h) = (Inr (), self, h1) \<and>
         (\<exists>d ds. list_of_set api (filter (\<lambda>m. m \<notin> set (mgr_map_modules api h1))
                    (remdups (mgr_map_available api h1))) = d # ds \<and>
                 d \<in> set (mgr_map_available api h1) \<and> d \<notin> set (mgr_map_modules api h1) \<and>
                 remote api d ''handle_command'' [ArgDict influx_self_test] h1 =
                   (Inl ImportError, h1))"
proof -
  let ?D = "filter (\<lambda>m. m \<notin> set (mgr_map_modules api h1)) (remdups (mgr_map_available api h1))"
  have "set ?D \<noteq> {}"
    using some by auto
  then have "set (list_of_set api ?D) \<noteq> {}"
    using perm by simp
  then obtain d ds where pick: "list_of_set api ?D = d # ds"
    by (cases "list_of_set api ?D") auto
  have "d \<in> set (list_of_set api ?D)"
    using pick by simp
  then have "d \<in> set ?D"
    using perm by simp
  then have d: "d \<in> set (mgr_map_available api h1)" "d \<notin> set (mgr_map_modules api h1)"
    by auto
  have r1: "remote api ''influx'' ''handle_command'' [ArgStr [], ArgDict influx_self_test] h =
              (Inr (), h1)"
    using remote_spec_valid [OF R valid] first by simp
  have r2: "remote api d ''handle_command'' [ArgDict influx_self_test] h1 = (Inl ImportError, h1)"
    by (rule remote_spec_unavailable [OF R d(2)])
  have r3: "remote api ''idontexist'' ''handle_command'' [ArgDict influx_self_test] h1 =
              (Inl ImportError, h1)"
    by (rule remote_spec_unavailable [OF R missing])
  have r4: "remote api ''influx'' ''idontexist'' [ArgDict influx_self_test] h1 =
              (Inl NameError, h1)"
    by (rule remote_spec_no_method [OF R later])
  have c1: "host_call (remote api ''influx'' ''handle_command''
              [ArgStr [], ArgDict influx_self_test]) (self, h) = (Inr (), self, h1)"
    using r1 by (simp add: host_call_def)
  note c2 = expect_raise_host_call [where f = "remote api d ''handle_command''
              [ArgDict influx_self_test]", OF r2]
  note c3 = expect_raise_host_call [where f = "remote api ''idontexist'' ''handle_command''
              [ArgDict influx_self_test]", OF r3]
  note c4 = expect_raise_host_call [where f = "remote api ''influx'' ''idontexist''
              [ArgDict influx_self_test]", OF r4]
  have "test_remote_calls api (self, h) = (Inr (), self, h1)"
    by (simp add: test_remote_calls_def Let_def c1 pick c2 c3 c4)
  then show ?thesis
    using pick d r2 by blast
qed

text \<open>
  C7: with the \<open>remote\<close> of the spec, and Python listing a set with exactly its
  elements, a call to a module that is not enabled, whether it is disabled or does not
  exist, raises \<open>ImportError\<close>, and a call to a method that an enabled module does not
  expose raises \<open>NameError\<close>, a different exception. When \<open>influx\<close> is enabled and
  answers, \<open>idontexist\<close> is no module, and some available module is disabled, the
  module that \<open>_test_remote_calls\<close> picks is available and not enabled, its three
  probes raise \<open>ImportError\<close>, \<open>ImportError\<close> and \<open>NameError\<close>, the test returns
  and \<open>handle_command\<close> answers \<open>(0, '', 'Successfully called')\<close>.

  For any \<open>remote\<close> at all: the test returns exactly when the three probes raise
  these three exceptions; a probe that returns instead makes the test raise a
  \<open>RuntimeError\<close> that says which failure is missing, a probe that raises something
  else ends the test with that exception, and \<open>handle_command\<close> passes either on to
  its caller.
\<close>

theorem remote_call_probes:
  "(remote api = remote_spec (mgr_map_modules api) exposes invoke \<and>
    (\<forall>xs. set (list_of_set api xs) = set xs) \<longrightarrow>
      (m \<notin> set (mgr_map_modules api g) \<longrightarrow>
         remote api m meth args g = (Inl ImportError, g)) \<and>
      (m \<in> set (mgr_map_modules api g) \<and> \<not> exposes m meth \<longrightarrow>
         remote api m meth args g = (Inl NameError, g)) \<and>
      (invoke ''influx'' ''handle_command'' [ArgStr [], ArgDict influx_self_test] h = (Inr (), h1) \<and>
       ''influx'' \<in> set (mgr_map_modules api h) \<and> exposes ''influx'' ''handle_command'' \<and>
       ''influx'' \<in> set (mgr_map_modules api h1) \<and> \<not> exposes ''influx'' ''idontexist'' \<and>
       ''idontexist'' \<notin> set (mgr_map_modules api h1) \<and>
       \<not> set (mgr_map_available api h1) \<subseteq> set (mgr_map_modules api h1) \<longrightarrow>
         test_remote_calls api (self, h) = (Inr (), self, h1) \<and>
         handle_command api [''prefix'' \<mapsto> ''mgr self-test remote''] (self, h) =
           (Inr (0, [], ''Successfully called''), self, h1) \<and>
         (\<exists>d ds. list_of_set api (filter (\<lambda>m. m \<notin> set (mgr_map_modules api h1))
                    (remdups (mgr_map_available api h1))) = d # ds \<and>
                 d \<in> set (mgr_map_available api h1) \<and> d \<notin> set (mgr_map_modules api h1) \<and>
                 remote api d ''handle_command'' [ArgDict influx_self_test] h1 =
                   (Inl ImportError, h1)) \<and>
         remote api ''idontexist'' ''handle_command'' [ArgDict influx_self_test] h1 =
           (Inl ImportError, h1) \<and>
         remote api ''influx'' ''idontexist'' [ArgDict influx_self_test] h1 =
           (Inl NameError, h1))) \<and>
   ImportError \<noteq> NameError \<and>
   (remote api ''influx'' ''handle_command'' [ArgStr [], ArgDict influx_self_test] h = (Inr (), k1) \<and>
    list_of_set api (filter (\<lambda>m. m \<notin> set (mgr_map_modules api k1))
      (remdups (mgr_map_available api k1))) = d # ds \<and>
    remote api d ''handle_command'' [ArgDict influx_self_test] k1 = (r2, k2) \<and>
    remote api ''idontexist'' ''handle_command'' [ArgDict influx_self_test] k2 = (r3, k3) \<and>
    remote api ''influx'' ''idontexist'' [ArgDict influx_self_test] k3 = (r4, k4) \<longrightarrow>
      fst (test_remote_calls api (self, h)) =
        (if r2 = Inr () then Inl (RuntimeError ''ImportError not raised for disabled module'')
         else if r2 \<noteq> Inl ImportError then r2
         else if r3 = Inr ()
           then Inl (RuntimeError ''ImportError not raised for nonexistent module'')
         else if r3 \<noteq> Inl ImportError then r3
         else if r4 = Inr () then Inl (RuntimeError ''KeyError not raised'')
         else if r4 \<noteq> Inl NameError then r4
         else Inr ()) \<and>
      (fst (test_remote_calls api (self, h)) = Inr () \<longleftrightarrow>
         r2 = Inl ImportError \<and> r3 = Inl ImportError \<and> r4 = Inl NameError)) \<and>
   (command ''prefix'' = Some ''mgr self-test remote'' \<longrightarrow>
      fst (handle_command api command (self, h)) =
        (case fst (test_remote_calls api (self, h)) of
           Inl e \<Rightarrow> Inl e
         | Inr u \<Rightarrow> Inr (0, [], ''Successfully called'')))"
proof -
  have spec: "remote api = remote_spec (mgr_map_modules api) exposes invoke \<and>
    (\<forall>xs. set (list_of_set api xs) = set xs) \<longrightarrow>
      (m \<notin> set (mgr_map_modules api g) \<longrightarrow>
         remote api m meth args g = (Inl ImportError, g)) \<and>
      (m \<in> set (mgr_map_modules api g) \<and> \<not> exposes m meth \<longrightarrow>
         remote api m meth args g = (Inl NameError, g)) \<and>
      (invoke ''influx'' ''handle_command'' [ArgStr [], ArgDict influx_self_test] h = (Inr (), h1) \<and>
       ''influx'' \<in> set (mgr_map_modules api h) \<and> exposes ''influx'' ''handle_command'' \<and>
       ''influx'' \<in> set (mgr_map_modules api h1) \<and> \<not> exposes ''influx'' ''idontexist'' \<and>
       ''idontexist'' \<notin> set (mgr_map_modules api h1) \<and>
       \<not> set (mgr_map_available api h1) \<subseteq> set (mgr_map_modules api h1) \<longrightarrow>
         test_remote_calls api (self, h) = (Inr (), self, h1) \<and>
         handle_command api [''prefix'' \<mapsto> ''mgr self-test remote''] (self, h) =
           (Inr (0, [], ''Successfully called''), self, h1) \<and>
         (\<exists>d ds. list_of_set api (filter (\<lambda>m. m \<notin> set (mgr_map_modules api h1))
                    (remdups (mgr_map_available api h1))) = d # ds \<and>
                 d \<in> set (mgr_map_available api h1) \<and> d \<notin> set (mgr_map_modules api h1) \<and>
                 remote api d ''handle_command'' [ArgDict influx_self_test] h1 =
                   (Inl ImportError, h1)) \<and>
         remote api ''idontexist'' ''handle_command'' [ArgDict influx_self_test] h1 =
           (Inl ImportError, h1) \<and>
         remote api ''influx'' ''idontexist'' [ArgDict influx_self_test] h1 =
           (Inl NameError, h1))"
  proof (intro impI conjI; (elim conjE)?)
    assume R: "remote api = remote_spec (mgr_map_modules api) exposes invoke"
    {
      assume "m \<notin> set (mgr_map_modules api g)"
      then show "remote api m meth args g = (Inl ImportError, g)"
        by (rule remote_spec_unavailable [OF R])
    next
      assume "m \<in> set (mgr_map_modules api g)" "\<not> exposes m meth"
      then show "remote api m meth args g = (Inl NameError, g)"
        by (rule remote_spec_no_method [OF R])
    next
      assume perm: "\<forall>xs. set (list_of_set api xs) = set xs"
        and a: "invoke ''influx'' ''handle_command'' [ArgStr [], ArgDict influx_self_test] h =
                  (Inr (), h1)"
          "''influx'' \<in> set (mgr_map_modules api h)" "exposes ''influx'' ''handle_command''"
          "''influx'' \<in> set (mgr_map_modules api h1)" "\<not> exposes ''influx'' ''idontexist''"
          "''idontexist'' \<notin> set (mgr_map_modules api h1)"
          "\<not> set (mgr_map_available api h1) \<subseteq> set (mgr_map_modules api h1)"
      note t = test_remote_calls_spec [OF R perm a, of self]
      show "test_remote_calls api (self, h) = (Inr (), self, h1)"
        using t by blast
      then show "handle_command api [''prefix'' \<mapsto> ''mgr self-test remote''] (self, h) =
           (Inr (0, [], ''Successfully called''), self, h1)"
        by (simp add: handle_command_def)
      show "\<exists>d ds. list_of_set api (filter (\<lambda>m. m \<notin> set (mgr_map_modules api h1))
                    (remdups (mgr_map_available api h1))) = d # ds \<and>
                 d \<in> set (mgr_map_available api h1) \<and> d \<notin> set (mgr_map_modules api h1) \<and>
                 remote api d ''handle_command'' [ArgDict influx_self_test] h1 =
                   (Inl ImportError, h1)"
        using t by blast
      show "remote api ''idontexist'' ''handle_command'' [ArgDict influx_self_test] h1 =
           (Inl ImportError, h1)"
        by (rule remote_spec_unavailable [OF R a(6)])
      show "remote api ''influx'' ''idontexist'' [ArgDict influx_self_test] h1 =
           (Inl NameError, h1)"
        by (rule remote_spec_no_method [OF R a(4) a(5)])
    }
  qed
  have conv: "remote api ''influx'' ''handle_command'' [ArgStr [], ArgDict influx_self_test] h = (Inr (), k1) \<and>
    list_of_set api (filter (\<lambda>m. m \<notin> set (mgr_map_modules api k1))
      (remdups (mgr_map_available api k1))) = d # ds \<and>
    remote api d ''handle_command'' [ArgDict influx_self_test] k1 = (r2, k2) \<and>
    remote api ''idontexist'' ''handle_command'' [ArgDict influx_self_test] k2 = (r3, k3) \<and>
    remote api ''influx'' ''idontexist'' [ArgDict influx_self_test] k3 = (r4, k4) \<longrightarrow>
      fst (test_remote_calls api (self, h)) =
        (if r2 = Inr () then Inl (RuntimeError ''ImportError not raised for disabled module'')
         else if r2 \<noteq> Inl ImportError then r2
         else if r3 = Inr ()
           then Inl (RuntimeError ''ImportError not raised for nonexistent module'')
         else if r3 \<noteq> Inl ImportError then r3
         else if r4 = Inr () then Inl (RuntimeError ''KeyError not raised'')
         else if r4 \<noteq> Inl NameError then r4
         else Inr ()) \<and>
      (fst (test_remote_calls api (self, h)) = Inr () \<longleftrightarrow>
         r2 = Inl ImportError \<and> r3 = Inl ImportError \<and> r4 = Inl NameError)"
  proof (intro impI, elim conjE)
    assume a: "remote api ''influx'' ''handle_command'' [ArgStr [], ArgDict influx_self_test] h = (Inr (), k1)"
      "list_of_set api (filter (\<lambda>m. m \<notin> set (mgr_map_modules api k1))
        (remdups (mgr_map_available api k1))) = d # ds"
      "remote api d ''handle_command'' [ArgDict influx_self_test] k1 = (r2, k2)"
      "remote api ''idontexist'' ''handle_command'' [ArgDict influx_self_test] k2 = (r3, k3)"
      "remote api ''influx'' ''idontexist'' [ArgDict influx_self_test] k3 = (r4, k4)"
    note t = test_remote_calls_result [OF a, of self]
    have "fst (test_remote_calls api (self, h)) = Inr () \<longleftrightarrow>
         r2 = Inl ImportError \<and> r3 = Inl ImportError \<and> r4 = Inl NameError"
      unfolding t by (cases r2; cases r3; cases r4) auto
    with t show "fst (test_remote_calls api (self, h)) =
        (if r2 = Inr () then Inl (RuntimeError ''ImportError not raised for disabled module'')
         else if r2 \<noteq> Inl ImportError then r2
         else if r3 = Inr ()
           then Inl (RuntimeError ''ImportError not raised for nonexistent module'')
         else if r3 \<noteq> Inl ImportError then r3
         else if r4 = Inr () then Inl (RuntimeError ''KeyError not raised'')
         else if r4 \<noteq> Inl NameError then r4
         else Inr ()) \<and>
      (fst (test_remote_calls api (self, h)) = Inr () \<longleftrightarrow>
         r2 = Inl ImportError \<and> r3 = Inl ImportError \<and> r4 = Inl NameError)"
      by blast
  qed
  have hc: "command ''prefix'' = Some ''mgr self-test remote'' \<longrightarrow>
      fst (handle_command api command (self, h)) =
        (case fst (test_remote_calls api (self, h)) of
           Inl e \<Rightarrow> Inl e
         | Inr u \<Rightarrow> Inr (0, [], ''Successfully called''))"
    by (simp add: handle_command_def fst_wrap)
  have kinds: "ImportError \<noteq> NameError"
    by simp
  show ?thesis
    using spec kinds conv hc by blast
qed

theorem remote_call_probes_witness:
  "remote spec_host ''dashboard'' ''handle_command'' [ArgDict influx_self_test] empty_host =
     (Inl ImportError, empty_host) \<and>
   remote spec_host ''idontexist'' ''handle_command'' [ArgDict influx_self_test] empty_host =
     (Inl ImportError, empty_host) \<and>
   remote spec_host ''influx'' ''idontexist'' [ArgDict influx_self_test] empty_host =
     (Inl NameError, empty_host) \<and>
   test_remote_calls spec_host (init, empty_host) = (Inr (), init, empty_host) \<and>
   handle_command spec_host [''prefix'' \<mapsto> ''mgr self-test remote''] (init, empty_host) =
     (Inr (0, [], ''Successfully called''), init, empty_host) \<and>
   fst (handle_command lenient_host [''prefix'' \<mapsto> ''mgr self-test remote'']
     (init, empty_host)) =
     Inl (RuntimeError ''ImportError not raised for disabled module'')"
proof -
  have R: "remote spec_host =
      remote_spec (mgr_map_modules spec_host) (\<lambda>m method. method = ''handle_command'')
        (\<lambda>m method args h. (Inr (), h))"
    by (simp add: spec_host_def test_host_def)
  have perm: "\<forall>xs. set (list_of_set spec_host xs) = set xs"
    by (simp add: spec_host_def test_host_def)
  have mods: "mgr_map_modules spec_host empty_host = [''influx'']"
    "mgr_map_available spec_host empty_host = [''influx'', ''dashboard'']"
    by (simp_all add: spec_host_def test_host_def)
  have a: "remote spec_host ''dashboard'' ''handle_command'' [ArgDict influx_self_test]
      empty_host = (Inl ImportError, empty_host)"
    using R perm mods
      remote_call_probes [where api = spec_host and m = "''dashboard''"
        and meth = "''handle_command''" and args = "[ArgDict influx_self_test]"
        and g = empty_host and exposes = "\<lambda>m method. method = ''handle_command''"
        and invoke = "\<lambda>m method args h. (Inr (), h)"]
    by simp
  have b: "remote spec_host ''idontexist'' ''handle_command'' [ArgDict influx_self_test]
      empty_host = (Inl ImportError, empty_host) \<and>
    remote spec_host ''influx'' ''idontexist'' [ArgDict influx_self_test] empty_host =
      (Inl NameError, empty_host) \<and>
    test_remote_calls spec_host (init, empty_host) = (Inr (), init, empty_host) \<and>
    handle_command spec_host [''prefix'' \<mapsto> ''mgr self-test remote''] (init, empty_host) =
      (Inr (0, [], ''Successfully called''), init, empty_host)"
    using R perm mods
      remote_call_probes [where api = spec_host and h = empty_host and ?h1.0 = empty_host
        and self = init and exposes = "\<lambda>m method. method = ''handle_command''"
        and invoke = "\<lambda>m method args h. (Inr (), h)"]
    by simp
  have c: "fst (handle_command lenient_host [''prefix'' \<mapsto> ''mgr self-test remote'']
      (init, empty_host)) = Inl (RuntimeError ''ImportError not raised for disabled module'')"
    using remote_call_probes [where api = lenient_host and h = empty_host and ?k1.0 = empty_host
      and d = "''dashboard''" and ds = "[]" and ?r2.0 = "Inr ()" and ?k2.0 = empty_host
      and ?r3.0 = "Inr ()" and ?k3.0 = empty_host and ?r4.0 = "Inr ()"
      and ?k4.0 = empty_host and command = "[''prefix'' \<mapsto> ''mgr self-test remote'']"
      and self = init]
    by (simp add: lenient_host_def test_host_def)
  show ?thesis
    using a b c by simp
qed

section \<open>Properties of the serve thread\<close>

text \<open>
  Moves of other threads change neither the place of the \<open>serve\<close> thread nor the
  numbers of commands sent and awaited; once \<open>serve\<close> has returned or raised, its
  steps change nothing.
\<close>

lemma sends_append: "sends (xs @ ys) = sends xs + sends ys"
  by (induction xs rule: sends.induct) simp_all

lemma awaits_append: "awaits (xs @ ys) = awaits xs + awaits ys"
  by (induction xs rule: awaits.induct) simp_all

lemma pc_other_move: "\<not> is_serve m \<Longrightarrow> pc (run_move m s) = pc s"
  by (cases m) simp_all

lemma in_flight_other_move: "\<not> is_serve m \<Longrightarrow> in_flight (run_move m s) = in_flight s"
  by (cases m) simp_all

lemma sends_other_move:
  "\<not> is_serve m \<Longrightarrow> sends (trace (shared (run_move m s))) = sends (trace (shared s))"
  by (cases m) (simp_all add: set_workload_def event_set_def sends_append)

lemma awaits_other_move:
  "\<not> is_serve m \<Longrightarrow> awaits (trace (shared (run_move m s))) = awaits (trace (shared s))"
  by (cases m) (simp_all add: set_workload_def event_set_def awaits_append)

lemma serve_step_ended: "pc s = Exited \<or> pc s = Raised e \<Longrightarrow> serve_step i s = s"
  by (auto simp: serve_step_def)

lemma run_ended: "pc s = Exited \<or> pc s = Raised e \<Longrightarrow> run ms s = run (others ms) s"
proof (induction ms arbitrary: s)
  case Nil
  show ?case by (simp add: others_def)
next
  case (Cons m ms)
  show ?case
  proof (cases "is_serve m")
    case True
    then obtain i where m: "m = Serve i" by (cases m) auto
    have "run (m # ms) s = run ms s"
      using Cons.prems m by (simp add: serve_step_ended)
    also have "\<dots> = run (others ms) s"
      using Cons by blast
    finally show ?thesis
      using True by (simp add: others_def)
  next
    case False
    have "pc (run_move m s) = Exited \<or> pc (run_move m s) = Raised e"
      using Cons.prems False by (simp add: pc_other_move)
    then have "run ms (run_move m s) = run (others ms) (run_move m s)"
      by (rule Cons.IH)
    then show ?thesis
      using False by (simp add: others_def)
  qed
qed

lemma pc_run_others: "pc (run (others ms) s) = pc s"
proof (induction ms arbitrary: s)
  case Nil
  show ?case by (simp add: others_def)
next
  case (Cons m ms)
  then show ?case
    by (cases "is_serve m") (auto simp: others_def pc_other_move)
qed

lemma run_after_end:
  assumes "pc s = Exited \<or> pc s = Raised e"
  shows "pc (run ms s) = pc s \<and> run ms s = run (others ms) s"
  using run_ended [OF assms, of ms] by (simp add: pc_run_others)

lemma spam_inv_serve_step: "spam_inv s \<Longrightarrow> spam_inv (serve_step i s)"
  by (cases "pc s"; cases i)
     (auto simp: spam_inv_def serve_step_def log_info_def event_clear_def event_wait_def
        send_command_def await_result_def sends_append awaits_append)

lemma spam_inv_run_move: "spam_inv s \<Longrightarrow> spam_inv (run_move m s)"
proof (cases "is_serve m")
  case True
  assume "spam_inv s"
  with True show ?thesis by (cases m) (auto simp: spam_inv_serve_step)
next
  case False
  assume "spam_inv s"
  with False show ?thesis
    by (auto simp: spam_inv_def pc_other_move in_flight_other_move sends_other_move
        awaits_other_move split: pc.splits)
qed

lemma spam_inv_run: "spam_inv s \<Longrightarrow> spam_inv (run ms s)"
  by (induction ms arbitrary: s) (simp_all add: spam_inv_run_move)

lemma spam_inv_start: "spam_inv start"
  by (simp add: spam_inv_def start_def init_def)

lemma spam_inv_in_flight: "spam_inv s \<Longrightarrow> in_flight s \<le> 1"
  by (cases "pc s") (auto simp: spam_inv_def)

lemma run_append: "run (xs @ ys) s = run ys (run xs s)"
  by (induction xs arbitrary: s) simp_all

lemma run_only_others:
  "\<forall>m\<in>set ms. \<not> is_serve m \<Longrightarrow>
     pc (run ms s) = pc s \<and> in_flight (run ms s) = in_flight s \<and>
     sends (trace (shared (run ms s))) = sends (trace (shared s))"
  by (induction ms arbitrary: s)
     (simp_all add: pc_other_move in_flight_other_move sends_other_move)

lemmas workload_names = WORKLOAD_COMMAND_SPAM_def SHUTDOWN_def WORKLOAD_THROW_EXCEPTION_def

subsection \<open>The loop of serve\<close>

text \<open>
  C1: the step of the \<open>serve\<close> thread, from every state, is the transition table of
  the loop. Each of the three comparisons of an iteration decides on the value of
  \<open>_workload\<close> that it reads itself:
  \<^item> at the top, \<open>command_spam\<close> takes the thread into \<open>_command_spam\<close>, whose body
    reads the event, sends a command, awaits its result, and on a set event clears it
    and comes back to the top; any other value takes it to the second comparison;
  \<^item> there \<open>shutdown\<close> makes \<open>serve\<close> log and return, and any other value leads to
    the third comparison;
  \<^item> there \<open>throw_exception\<close> makes \<open>serve\<close> end with
    \<open>RuntimeError("Synthetic exception in serve")\<close>, and any other value, \<open>None\<close>
    among them, takes the thread into \<open>_event.wait()\<close>;
  \<^item> in the wait the thread stays where it is as long as the event is not set; once it
    is set the thread leaves the wait, clears the event and is back at the top.

  \<open>serve\<close> returns only by reading \<open>shutdown\<close> at the second comparison, and ends
  with an exception only by reading \<open>throw_exception\<close> at the third or when a host call
  of the body raises: nothing is caught. After either end no step of the thread changes
  anything, whatever the other threads do, and the other threads never move the
  thread. No step of the thread writes \<open>_workload\<close>. When no write comes in between,
  an iteration that starts with \<open>shutdown\<close>, \<open>throw_exception\<close> or neither ends in
  the return, the exception or the wait.
\<close>

theorem serve_transition_table:
  "(pc s = Top \<longrightarrow>
      serve_step i s =
        (if workload (shared s) = Some ''command_spam''
         then s\<lparr>shared := log_info ''Starting command_spam workload...'' (shared s),
                pc := SpamTest\<rparr>
         else s\<lparr>pc := TestShutdown\<rparr>)) \<and>
   (pc s = TestShutdown \<longrightarrow>
      serve_step i s =
        (if workload (shared s) = Some ''shutdown''
         then s\<lparr>shared := log_info ''Shutting down...'' (shared s), pc := Exited\<rparr>
         else s\<lparr>pc := TestThrow\<rparr>)) \<and>
   (pc s = TestThrow \<longrightarrow>
      serve_step i s =
        (if workload (shared s) = Some ''throw_exception''
         then s\<lparr>pc := Raised (RuntimeError ''Synthetic exception in serve'')\<rparr>
         else s\<lparr>shared := log_info ''Waiting for workload request...'' (shared s),
                pc := Waiting\<rparr>)) \<and>
   (pc s = Waiting \<longrightarrow>
      serve_step i s =
        (if event (shared s) then s\<lparr>shared := event_wait (shared s), pc := Woken\<rparr> else s)) \<and>
   (pc s = Woken \<longrightarrow> serve_step i s = s\<lparr>shared := event_clear (shared s), pc := Top\<rparr>) \<and>
   (pc s = SpamTest \<longrightarrow>
      serve_step i s = (if event (shared s) then s\<lparr>pc := SpamLeave\<rparr> else s\<lparr>pc := SpamSend\<rparr>)) \<and>
   (pc s = SpamSend \<longrightarrow>
      serve_step i s =
        (case i of
           Returns x w \<Rightarrow>
             s\<lparr>shared := send_command ''mon'' ''osd reweight'' (py_int x) w (shared s),
               in_flight := in_flight s + 1, pc := SpamAwait\<rparr>
         | Raises e \<Rightarrow> s\<lparr>pc := Raised e\<rparr>)) \<and>
   (pc s = SpamAwait \<longrightarrow>
      serve_step i s =
        (case i of
           Returns x w \<Rightarrow>
             s\<lparr>shared := await_result (shared s), in_flight := in_flight s - 1,
               pc := SpamTest\<rparr>
         | Raises e \<Rightarrow> s\<lparr>pc := Raised e\<rparr>)) \<and>
   (pc s = SpamLeave \<longrightarrow>
      serve_step i s =
        s\<lparr>shared := log_info ''Ended command_spam workload...'' (event_clear (shared s)),
          pc := Top\<rparr>) \<and>
   (pc s = Exited \<or> pc s = Raised e \<longrightarrow>
      serve_step i s = s \<and> (\<forall>ms. pc (run ms s) = pc s \<and> run ms s = run (others ms) s)) \<and>
   (\<not> is_serve m \<longrightarrow> pc (run_move m s) = pc s) \<and>
   (pc (serve_step i s) = Exited \<longleftrightarrow>
      pc s = Exited \<or> pc s = TestShutdown \<and> workload (shared s) = Some ''shutdown'') \<and>
   (pc (serve_step i s) = Raised e \<longleftrightarrow>
      pc s = Raised e \<or>
      pc s = TestThrow \<and> workload (shared s) = Some ''throw_exception'' \<and>
        e = RuntimeError ''Synthetic exception in serve'' \<or>
      (pc s = SpamSend \<or> pc s = SpamAwait) \<and> i = Raises e) \<and>
   workload (shared (serve_step i s)) = workload (shared s) \<and>
   (pc s = Top \<and> workload (shared s) = Some ''shutdown'' \<longrightarrow>
      serve_step j (serve_step i s) =
        s\<lparr>shared := log_info ''Shutting down...'' (shared s), pc := Exited\<rparr>) \<and>
   (pc s = Top \<and> workload (shared s) = Some ''throw_exception'' \<longrightarrow>
      serve_step k (serve_step j (serve_step i s)) =
        s\<lparr>pc := Raised (RuntimeError ''Synthetic exception in serve'')\<rparr>) \<and>
   (pc s = Top \<and>
    workload (shared s) \<notin> {Some ''command_spam'', Some ''shutdown'', Some ''throw_exception''} \<longrightarrow>
      serve_step k (serve_step j (serve_step i s)) =
        s\<lparr>shared := log_info ''Waiting for workload request...'' (shared s), pc := Waiting\<rparr>) \<and>
   (pc s = Waiting \<and> event (shared s) \<longrightarrow>
      serve_step j (serve_step i s) =
        s\<lparr>shared := event_clear (event_wait (shared s)), pc := Top\<rparr> \<and>
      \<not> event (shared (serve_step j (serve_step i s))))"
proof -
  have top: "pc s = Top \<longrightarrow>
      serve_step i s =
        (if workload (shared s) = Some ''command_spam''
         then s\<lparr>shared := log_info ''Starting command_spam workload...'' (shared s),
                pc := SpamTest\<rparr>
         else s\<lparr>pc := TestShutdown\<rparr>)"
    by (simp add: serve_step_def workload_names)
  have down: "pc s = TestShutdown \<longrightarrow>
      serve_step i s =
        (if workload (shared s) = Some ''shutdown''
         then s\<lparr>shared := log_info ''Shutting down...'' (shared s), pc := Exited\<rparr>
         else s\<lparr>pc := TestThrow\<rparr>)"
    by (simp add: serve_step_def workload_names)
  have throw: "pc s = TestThrow \<longrightarrow>
      serve_step i s =
        (if workload (shared s) = Some ''throw_exception''
         then s\<lparr>pc := Raised (RuntimeError ''Synthetic exception in serve'')\<rparr>
         else s\<lparr>shared := log_info ''Waiting for workload request...'' (shared s),
                pc := Waiting\<rparr>)"
    by (simp add: serve_step_def workload_names)
  have waiting: "pc s = Waiting \<longrightarrow>
      serve_step i s =
        (if event (shared s) then s\<lparr>shared := event_wait (shared s), pc := Woken\<rparr> else s)"
    by (simp add: serve_step_def)
  have woken: "pc s = Woken \<longrightarrow> serve_step i s = s\<lparr>shared := event_clear (shared s), pc := Top\<rparr>"
    by (simp add: serve_step_def)
  have test: "pc s = SpamTest \<longrightarrow>
      serve_step i s = (if event (shared s) then s\<lparr>pc := SpamLeave\<rparr> else s\<lparr>pc := SpamSend\<rparr>)"
    by (simp add: serve_step_def)
  have send: "pc s = SpamSend \<longrightarrow>
      serve_step i s =
        (case i of
           Returns x w \<Rightarrow>
             s\<lparr>shared := send_command ''mon'' ''osd reweight'' (py_int x) w (shared s),
               in_flight := in_flight s + 1, pc := SpamAwait\<rparr>
         | Raises e \<Rightarrow> s\<lparr>pc := Raised e\<rparr>)"
    by (simp add: serve_step_def)
  have await: "pc s = SpamAwait \<longrightarrow>
      serve_step i s =
        (case i of
           Returns x w \<Rightarrow>
             s\<lparr>shared := await_result (shared s), in_flight := in_flight s - 1,
               pc := SpamTest\<rparr>
         | Raises e \<Rightarrow> s\<lparr>pc := Raised e\<rparr>)"
    by (simp add: serve_step_def)
  have leave: "pc s = SpamLeave \<longrightarrow>
      serve_step i s =
        s\<lparr>shared := log_info ''Ended command_spam workload...'' (event_clear (shared s)),
          pc := Top\<rparr>"
    by (simp add: serve_step_def)
  have ended: "pc s = Exited \<or> pc s = Raised e \<longrightarrow>
      serve_step i s = s \<and> (\<forall>ms. pc (run ms s) = pc s \<and> run ms s = run (others ms) s)"
    using serve_step_ended [of s e i] run_after_end [of s e] by blast
  have other: "\<not> is_serve m \<longrightarrow> pc (run_move m s) = pc s"
    by (simp add: pc_other_move)
  have exits: "pc (serve_step i s) = Exited \<longleftrightarrow>
      pc s = Exited \<or> pc s = TestShutdown \<and> workload (shared s) = Some ''shutdown''"
    by (cases "pc s"; cases i) (auto simp: serve_step_def workload_names)
  have raises: "pc (serve_step i s) = Raised e \<longleftrightarrow>
      pc s = Raised e \<or>
      pc s = TestThrow \<and> workload (shared s) = Some ''throw_exception'' \<and>
        e = RuntimeError ''Synthetic exception in serve'' \<or>
      (pc s = SpamSend \<or> pc s = SpamAwait) \<and> i = Raises e"
    by (cases "pc s"; cases i) (auto simp: serve_step_def workload_names)
  have reads: "workload (shared (serve_step i s)) = workload (shared s)"
    by (cases "pc s"; cases i)
       (auto simp: serve_step_def log_info_def event_wait_def event_clear_def send_command_def
          await_result_def)
  have down3: "pc s = Top \<and> workload (shared s) = Some ''shutdown'' \<longrightarrow>
      serve_step j (serve_step i s) =
        s\<lparr>shared := log_info ''Shutting down...'' (shared s), pc := Exited\<rparr>"
    by (simp add: serve_step_def workload_names)
  have throw3: "pc s = Top \<and> workload (shared s) = Some ''throw_exception'' \<longrightarrow>
      serve_step k (serve_step j (serve_step i s)) =
        s\<lparr>pc := Raised (RuntimeError ''Synthetic exception in serve'')\<rparr>"
    by (simp add: serve_step_def workload_names)
  have idle3: "pc s = Top \<and>
    workload (shared s) \<notin> {Some ''command_spam'', Some ''shutdown'', Some ''throw_exception''} \<longrightarrow>
      serve_step k (serve_step j (serve_step i s)) =
        s\<lparr>shared := log_info ''Waiting for workload request...'' (shared s), pc := Waiting\<rparr>"
    by (simp add: serve_step_def workload_names)
  have wake2: "pc s = Waiting \<and> event (shared s) \<longrightarrow>
      serve_step j (serve_step i s) =
        s\<lparr>shared := event_clear (event_wait (shared s)), pc := Top\<rparr> \<and>
      \<not> event (shared (serve_step j (serve_step i s)))"
    by (simp add: serve_step_def event_clear_def event_wait_def)
  show ?thesis
    by (intro conjI)
       (fact top down throw waiting woken test send await leave ended other exits raises reads
          down3 throw3 idle3 wake2)+
qed

theorem serve_transition_table_witness:
  "pc (serve_step (Returns 0 0) (start\<lparr>shared := init\<lparr>workload := Some ''command_spam''\<rparr>\<rparr>)) =
     SpamTest \<and>
   pc (serve_step (Returns 0 0)
         (start\<lparr>shared := init\<lparr>workload := Some ''shutdown''\<rparr>, pc := TestShutdown\<rparr>)) =
     Exited \<and>
   pc (serve_step (Returns 0 0)
         (start\<lparr>shared := init\<lparr>workload := Some ''command_spam''\<rparr>, pc := TestShutdown\<rparr>)) =
     TestThrow \<and>
   pc (serve_step (Returns 0 0)
         (start\<lparr>shared := init\<lparr>workload := Some ''throw_exception''\<rparr>, pc := TestThrow\<rparr>)) =
     Raised (RuntimeError ''Synthetic exception in serve'') \<and>
   pc (serve_step (Returns 0 0) (start\<lparr>pc := TestThrow\<rparr>)) = Waiting \<and>
   serve_step (Returns 0 0) (start\<lparr>pc := Waiting\<rparr>) = start\<lparr>pc := Waiting\<rparr> \<and>
   pc (serve_step (Returns 0 0)
         (start\<lparr>shared := init\<lparr>event := True\<rparr>, pc := Waiting\<rparr>)) = Woken \<and>
   serve_step (Returns 0 0) (start\<lparr>shared := init\<lparr>event := True\<rparr>, pc := Woken\<rparr>) =
     start\<lparr>shared := init\<lparr>trace := [EventClear]\<rparr>, pc := Top\<rparr> \<and>
   pc (run [Serve (Returns 0 0), Write (Some ''command_spam''), Signal, Serve (Returns 0 0)]
         (start\<lparr>pc := Exited\<rparr>)) = Exited \<and>
   pc (serve_step (Returns 0 0) (serve_step (Returns 0 0) (serve_step (Returns 0 0)
         (start\<lparr>shared := init\<lparr>workload := Some ''throw_exception''\<rparr>\<rparr>)))) =
     Raised (RuntimeError ''Synthetic exception in serve'')"
proof -
  let ?i = "Returns 0 0"
  note t = serve_transition_table [where i = ?i and j = ?i and k = ?i and m = Signal
      and e = "RuntimeError ''Synthetic exception in serve''"]
  have a: "pc (serve_step ?i (start\<lparr>shared := init\<lparr>workload := Some ''command_spam''\<rparr>\<rparr>)) =
      SpamTest"
    using t [where s = "start\<lparr>shared := init\<lparr>workload := Some ''command_spam''\<rparr>\<rparr>"]
    by (simp add: start_def init_def)
  have b: "pc (serve_step ?i
         (start\<lparr>shared := init\<lparr>workload := Some ''shutdown''\<rparr>, pc := TestShutdown\<rparr>)) = Exited"
    using t [where s = "start\<lparr>shared := init\<lparr>workload := Some ''shutdown''\<rparr>,
        pc := TestShutdown\<rparr>"]
    by (simp add: start_def init_def)
  have c: "pc (serve_step ?i
         (start\<lparr>shared := init\<lparr>workload := Some ''command_spam''\<rparr>, pc := TestShutdown\<rparr>)) =
      TestThrow"
    using t [where s = "start\<lparr>shared := init\<lparr>workload := Some ''command_spam''\<rparr>,
        pc := TestShutdown\<rparr>"]
    by (simp add: start_def init_def)
  have d: "pc (serve_step ?i
         (start\<lparr>shared := init\<lparr>workload := Some ''throw_exception''\<rparr>, pc := TestThrow\<rparr>)) =
      Raised (RuntimeError ''Synthetic exception in serve'')"
    using t [where s = "start\<lparr>shared := init\<lparr>workload := Some ''throw_exception''\<rparr>,
        pc := TestThrow\<rparr>"]
    by (simp add: start_def init_def)
  have e: "pc (serve_step ?i (start\<lparr>pc := TestThrow\<rparr>)) = Waiting"
    using t [where s = "start\<lparr>pc := TestThrow\<rparr>"]
    by (simp add: start_def init_def)
  have f: "serve_step ?i (start\<lparr>pc := Waiting\<rparr>) = start\<lparr>pc := Waiting\<rparr>"
    using t [where s = "start\<lparr>pc := Waiting\<rparr>"]
    by (simp add: start_def init_def)
  have g: "pc (serve_step ?i (start\<lparr>shared := init\<lparr>event := True\<rparr>, pc := Waiting\<rparr>)) = Woken"
    using t [where s = "start\<lparr>shared := init\<lparr>event := True\<rparr>, pc := Waiting\<rparr>"]
    by (simp add: start_def init_def)
  have h: "serve_step ?i (start\<lparr>shared := init\<lparr>event := True\<rparr>, pc := Woken\<rparr>) =
      start\<lparr>shared := init\<lparr>trace := [EventClear]\<rparr>, pc := Top\<rparr>"
    using t [where s = "start\<lparr>shared := init\<lparr>event := True\<rparr>, pc := Woken\<rparr>"]
    by (simp add: start_def init_def event_clear_def)
  have x: "pc (run [Serve ?i, Write (Some ''command_spam''), Signal, Serve ?i]
         (start\<lparr>pc := Exited\<rparr>)) = Exited"
  proof -
    have "\<forall>ms. pc (run ms (start\<lparr>pc := Exited\<rparr>)) = Exited"
      using t [where s = "start\<lparr>pc := Exited\<rparr>"] by simp
    then show ?thesis
      by blast
  qed
  have y: "pc (serve_step ?i (serve_step ?i (serve_step ?i
         (start\<lparr>shared := init\<lparr>workload := Some ''throw_exception''\<rparr>\<rparr>)))) =
     Raised (RuntimeError ''Synthetic exception in serve'')"
  proof -
    let ?s = "start\<lparr>shared := init\<lparr>workload := Some ''throw_exception''\<rparr>\<rparr>"
    have "pc ?s = Top \<and> workload (shared ?s) = Some ''throw_exception'' \<longrightarrow>
        serve_step ?i (serve_step ?i (serve_step ?i ?s)) =
          ?s\<lparr>pc := Raised (RuntimeError ''Synthetic exception in serve'')\<rparr>"
      using t [where s = ?s] by (elim conjE) assumption
    then show ?thesis
      by (simp add: start_def init_def)
  qed
  show ?thesis
    using a b c d e f g h x y by simp
qed

subsection \<open>The body of the command-spam workload\<close>

text \<open>
  C2: every turn of the loop of \<open>_command_spam\<close> starts by reading the event. When it
  is set, the thread sends nothing and goes on to clear the event and leave the body,
  and it has sent nothing by the time it is back at the top of \<open>serve\<close>, whatever the
  other threads write in between. When it is not set, the turn sends one command and
  then waits for its result before the next reading of the event. A step sends a
  command only from the place that follows this reading, and the thread comes to that
  place only by a reading that finds the event not set; the other threads neither move
  the thread nor send. In every state that a schedule reaches from the start at most
  one command is in flight, and the commands sent are the results awaited plus the
  commands in flight.
\<close>

theorem command_spam_body:
  "(pc s = SpamTest \<and> event (shared s) \<longrightarrow> serve_step i s = s\<lparr>pc := SpamLeave\<rparr>) \<and>
   (pc s = SpamTest \<and> \<not> event (shared s) \<longrightarrow>
      serve_step i s = s\<lparr>pc := SpamSend\<rparr> \<and>
      serve_step (Returns x w) (serve_step i s) =
        s\<lparr>shared := send_command ''mon'' ''osd reweight'' (py_int x) w (shared s),
          in_flight := in_flight s + 1, pc := SpamAwait\<rparr>) \<and>
   (pc s = SpamSend \<longrightarrow>
      serve_step (Returns x w) s =
        s\<lparr>shared := send_command ''mon'' ''osd reweight'' (py_int x) w (shared s),
          in_flight := in_flight s + 1, pc := SpamAwait\<rparr>) \<and>
   (pc s = SpamAwait \<longrightarrow>
      serve_step (Returns x w) s =
        s\<lparr>shared := await_result (shared s), in_flight := in_flight s - 1, pc := SpamTest\<rparr>) \<and>
   (pc s = SpamLeave \<longrightarrow>
      serve_step i s =
        s\<lparr>shared := log_info ''Ended command_spam workload...'' (event_clear (shared s)),
          pc := Top\<rparr> \<and>
      \<not> event (shared (serve_step i s))) \<and>
   sends (trace (shared (serve_step i s))) =
     sends (trace (shared s)) + (if pc s = SpamSend \<and> returns i then 1 else 0) \<and>
   (pc (serve_step i s) = SpamSend \<longleftrightarrow> pc s = SpamTest \<and> \<not> event (shared s)) \<and>
   (\<not> is_serve m \<longrightarrow>
      pc (run_move m s) = pc s \<and>
      sends (trace (shared (run_move m s))) = sends (trace (shared s))) \<and>
   (pc s = SpamTest \<and> event (shared s) \<and> (\<forall>m\<in>set ms. \<not> is_serve m) \<longrightarrow>
      pc (run (Serve i # ms @ [Serve j]) s) = Top \<and>
      \<not> event (shared (run (Serve i # ms @ [Serve j]) s)) \<and>
      sends (trace (shared (run (Serve i # ms @ [Serve j]) s))) = sends (trace (shared s))) \<and>
   in_flight (run sched start) \<le> 1 \<and>
   sends (trace (shared (run sched start))) =
     awaits (trace (shared (run sched start))) + in_flight (run sched start)"
proof -
  have stop: "pc s = SpamTest \<and> event (shared s) \<longrightarrow> serve_step i s = s\<lparr>pc := SpamLeave\<rparr>"
    by (simp add: serve_step_def)
  have go: "pc s = SpamTest \<and> \<not> event (shared s) \<longrightarrow>
      serve_step i s = s\<lparr>pc := SpamSend\<rparr> \<and>
      serve_step (Returns x w) (serve_step i s) =
        s\<lparr>shared := send_command ''mon'' ''osd reweight'' (py_int x) w (shared s),
          in_flight := in_flight s + 1, pc := SpamAwait\<rparr>"
    by (simp add: serve_step_def)
  have send: "pc s = SpamSend \<longrightarrow>
      serve_step (Returns x w) s =
        s\<lparr>shared := send_command ''mon'' ''osd reweight'' (py_int x) w (shared s),
          in_flight := in_flight s + 1, pc := SpamAwait\<rparr>"
    by (simp add: serve_step_def)
  have wait: "pc s = SpamAwait \<longrightarrow>
      serve_step (Returns x w) s =
        s\<lparr>shared := await_result (shared s), in_flight := in_flight s - 1, pc := SpamTest\<rparr>"
    by (simp add: serve_step_def)
  have leave: "pc s = SpamLeave \<longrightarrow>
      serve_step i s =
        s\<lparr>shared := log_info ''Ended command_spam workload...'' (event_clear (shared s)),
          pc := Top\<rparr> \<and>
      \<not> event (shared (serve_step i s))"
    by (simp add: serve_step_def log_info_def event_clear_def)
  have count: "sends (trace (shared (serve_step i s))) =
     sends (trace (shared s)) + (if pc s = SpamSend \<and> returns i then 1 else 0)"
    by (cases "pc s"; cases i)
       (simp_all add: serve_step_def log_info_def event_clear_def event_wait_def
          send_command_def await_result_def sends_append)
  have enter: "pc (serve_step i s) = SpamSend \<longleftrightarrow> pc s = SpamTest \<and> \<not> event (shared s)"
    by (cases "pc s"; cases i) (auto simp: serve_step_def)
  have other: "\<not> is_serve m \<longrightarrow>
      pc (run_move m s) = pc s \<and>
      sends (trace (shared (run_move m s))) = sends (trace (shared s))"
    by (simp add: pc_other_move sends_other_move)
  have out: "pc s = SpamTest \<and> event (shared s) \<and> (\<forall>m\<in>set ms. \<not> is_serve m) \<longrightarrow>
      pc (run (Serve i # ms @ [Serve j]) s) = Top \<and>
      \<not> event (shared (run (Serve i # ms @ [Serve j]) s)) \<and>
      sends (trace (shared (run (Serve i # ms @ [Serve j]) s))) = sends (trace (shared s))"
  proof
    assume a: "pc s = SpamTest \<and> event (shared s) \<and> (\<forall>m\<in>set ms. \<not> is_serve m)"
    let ?t = "run ms (s\<lparr>pc := SpamLeave\<rparr>)"
    have r: "run (Serve i # ms @ [Serve j]) s = serve_step j ?t"
      using a by (simp add: run_append serve_step_def)
    have t: "pc ?t = SpamLeave \<and> sends (trace (shared ?t)) = sends (trace (shared s))"
      using a run_only_others [of ms "s\<lparr>pc := SpamLeave\<rparr>"] by simp
    show "pc (run (Serve i # ms @ [Serve j]) s) = Top \<and>
      \<not> event (shared (run (Serve i # ms @ [Serve j]) s)) \<and>
      sends (trace (shared (run (Serve i # ms @ [Serve j]) s))) = sends (trace (shared s))"
      unfolding r using t
      by (simp add: serve_step_def log_info_def event_clear_def sends_append)
  qed
  have inv: "spam_inv (run sched start)"
    by (rule spam_inv_run [OF spam_inv_start])
  have flight: "in_flight (run sched start) \<le> 1"
    by (rule spam_inv_in_flight [OF inv])
  have balance: "sends (trace (shared (run sched start))) =
     awaits (trace (shared (run sched start))) + in_flight (run sched start)"
    using inv by (simp add: spam_inv_def)
  show ?thesis
    by (intro conjI) (fact stop go send wait leave count enter other out flight balance)+
qed

theorem command_spam_body_witness:
  "serve_step (Returns (3/2) (1/4)) (start\<lparr>pc := SpamSend\<rparr>) =
     start\<lparr>shared := init\<lparr>trace := [SendCommand ''mon'' ''osd reweight'' 1 (1/4)]\<rparr>,
           in_flight := 1, pc := SpamAwait\<rparr> \<and>
   serve_step (Returns (3/2) (1/4)) (start\<lparr>pc := SpamTest\<rparr>) = start\<lparr>pc := SpamSend\<rparr> \<and>
   serve_step (Returns (3/2) (1/4))
       (start\<lparr>shared := init\<lparr>event := True\<rparr>, pc := SpamTest\<rparr>) =
     start\<lparr>shared := init\<lparr>event := True\<rparr>, pc := SpamLeave\<rparr> \<and>
   pc (run [Serve (Returns (3/2) (1/4)), Write (Some ''command_spam''), Signal,
            Serve (Returns (3/2) (1/4))]
         (start\<lparr>shared := init\<lparr>event := True\<rparr>, pc := SpamTest\<rparr>)) = Top \<and>
   sends (trace (shared
      (run [Serve (Returns (3/2) (1/4)), Write (Some ''command_spam''), Signal,
            Serve (Returns (3/2) (1/4))]
         (start\<lparr>shared := init\<lparr>event := True\<rparr>, pc := SpamTest\<rparr>)))) = 0 \<and>
   in_flight (run [Serve (Returns (3/2) (1/4)), Serve (Returns (3/2) (1/4)),
                   Serve (Returns (3/2) (1/4)), Write (Some ''command_spam''), Signal,
                   Serve (Returns (3/2) (1/4)), Serve (Returns (3/2) (1/4)),
                   Serve (Returns (3/2) (1/4)), Serve (Returns (3/2) (1/4)),
                   Serve (Returns (3/2) (1/4))] start) = 1"
proof -
  let ?i = "Returns (3/2) (1/4)"
  let ?t = "start\<lparr>shared := init\<lparr>event := True\<rparr>, pc := SpamTest\<rparr>"
  note t = command_spam_body [where i = ?i and j = ?i and x = "3/2" and w = "1/4" and m = Signal]
  have a: "serve_step ?i (start\<lparr>pc := SpamSend\<rparr>) =
     start\<lparr>shared := init\<lparr>trace := [SendCommand ''mon'' ''osd reweight'' 1 (1/4)]\<rparr>,
           in_flight := 1, pc := SpamAwait\<rparr>"
    using t [where s = "start\<lparr>pc := SpamSend\<rparr>" and ms = "[]" and sched = "[]"]
    by (simp add: start_def init_def send_command_def py_int_def)
  have a': "serve_step ?i (start\<lparr>pc := SpamTest\<rparr>) = start\<lparr>pc := SpamSend\<rparr>"
    using t [where s = "start\<lparr>pc := SpamTest\<rparr>" and ms = "[]" and sched = "[]"]
    by (simp add: start_def init_def)
  have b: "serve_step ?i ?t = start\<lparr>shared := init\<lparr>event := True\<rparr>, pc := SpamLeave\<rparr>"
    using t [where s = ?t and ms = "[]" and sched = "[]"]
    by (simp add: start_def init_def)
  have c: "pc (run [Serve ?i, Write (Some ''command_spam''), Signal, Serve ?i] ?t) = Top \<and>
      sends (trace (shared
        (run [Serve ?i, Write (Some ''command_spam''), Signal, Serve ?i] ?t))) = 0"
    using t [where s = ?t and ms = "[Write (Some ''command_spam''), Signal]" and sched = "[]"]
    by (simp add: start_def init_def serve_step_def set_workload_def event_set_def
        log_info_def event_clear_def)
  have d: "in_flight (run [Serve ?i, Serve ?i, Serve ?i, Write (Some ''command_spam''), Signal,
                           Serve ?i, Serve ?i, Serve ?i, Serve ?i, Serve ?i] start) = 1"
    using t [where s = start and ms = "[]"
        and sched = "[Serve ?i, Serve ?i, Serve ?i, Write (Some ''command_spam''), Signal,
                      Serve ?i, Serve ?i, Serve ?i, Serve ?i, Serve ?i]"]
    by (simp add: start_def init_def serve_step_def set_workload_def event_set_def
        workload_names log_info_def send_command_def event_wait_def event_clear_def)
  show ?thesis
    using a a' b c d by simp
qed

end
